theory Spec2Isabelle
  imports Complex_Main "HOL-Library.Sublist"
begin

section \<open>Python values used by the services\<close>

text \<open>
  A Python \<open>str\<close> is modelled as the list of its code points, one \<open>char\<close> per code
  point; the model therefore covers the strings whose code points are below 256.
  The character classes below are those of CPython on that range:
  \<open>str.isspace\<close> (also the class \<open>\s\<close> of \<open>re\<close> on \<open>str\<close> patterns),
  the class \<open>\w\<close>, and \<open>str.lower\<close>.
\<close>

definition is_space :: "char \<Rightarrow> bool" where
  "is_space c =
     (let n = (of_char c :: nat)
      in (9 \<le> n \<and> n \<le> 13) \<or> (28 \<le> n \<and> n \<le> 32) \<or> n = 133 \<or> n = 160)"

definition is_word :: "char \<Rightarrow> bool" where
  "is_word c =
     (let n = (of_char c :: nat)
      in (48 \<le> n \<and> n \<le> 57) \<or> (65 \<le> n \<and> n \<le> 90) \<or> n = 95 \<or> (97 \<le> n \<and> n \<le> 122)
         \<or> n = 170 \<or> n = 178 \<or> n = 179 \<or> n = 181 \<or> n = 185 \<or> n = 186
         \<or> (188 \<le> n \<and> n \<le> 190) \<or> (192 \<le> n \<and> n \<le> 214) \<or> (216 \<le> n \<and> n \<le> 246)
         \<or> 248 \<le> n)"

definition lower_char :: "char \<Rightarrow> char" where
  "lower_char c =
     (let n = (of_char c :: nat)
      in if (65 \<le> n \<and> n \<le> 90) \<or> (192 \<le> n \<and> n \<le> 222 \<and> n \<noteq> 215)
         then char_of (n + 32) else c)"

text \<open>\<open>s.lower()\<close>\<close>

definition lower :: "string \<Rightarrow> string" where
  "lower s = map lower_char s"

text \<open>\<open>s.strip()\<close>: whitespace removed at both ends.\<close>

definition strip :: "string \<Rightarrow> string" where
  "strip s = rev (dropWhile is_space (rev (dropWhile is_space s)))"

text \<open>
  \<open>s.split()\<close> without a separator: the maximal runs of non-whitespace characters.
  The first argument is the run being read, reversed.
\<close>

fun split_ws_from :: "string \<Rightarrow> string \<Rightarrow> string list" where
  "split_ws_from cur [] = (if cur = [] then [] else [rev cur])"
| "split_ws_from cur (c # cs) =
     (if is_space c
      then (if cur = [] then split_ws_from [] cs else rev cur # split_ws_from [] cs)
      else split_ws_from (c # cur) cs)"

definition split_ws :: "string \<Rightarrow> string list" where
  "split_ws s = split_ws_from [] s"

text \<open>
  \<open>s.split(sep)\<close> for a one-character separator: always at least one piece.
  The first argument is the piece being read, reversed.
\<close>

fun split_on_from :: "char \<Rightarrow> string \<Rightarrow> string \<Rightarrow> string list" where
  "split_on_from sep cur [] = [rev cur]"
| "split_on_from sep cur (c # cs) =
     (if c = sep then rev cur # split_on_from sep [] cs
      else split_on_from sep (c # cur) cs)"

definition split_on :: "char \<Rightarrow> string \<Rightarrow> string list" where
  "split_on sep s = split_on_from sep [] s"

abbreviation newline :: char where
  "newline \<equiv> CHR 0x0A"

text \<open>\<open>sep.join(xs)\<close>\<close>

fun join :: "string \<Rightarrow> string list \<Rightarrow> string" where
  "join sep [] = []"
| "join sep [x] = x"
| "join sep (x # y # ys) = x @ sep @ join sep (y # ys)"

text \<open>\<open>p in s\<close> on strings: \<open>p\<close> occurs in \<open>s\<close> as a contiguous substring.\<close>

fun contains :: "string \<Rightarrow> string \<Rightarrow> bool" where
  "contains p [] = (p = [])"
| "contains p (c # cs) = (prefix p (c # cs) \<or> contains p cs)"

text \<open>
  The values a metadata dictionary holds: strings, integers, booleans and \<open>None\<close>.
  A dictionary with string keys is a map; \<open>d.copy()\<close> followed by \<open>update\<close>, and
  \<open>{**d, k: v}\<close>, are map updates.
\<close>

datatype pyval = PStr string | PInt int | PBool bool | PNone

type_synonym meta = "string \<rightharpoonup> pyval"

text \<open>\<open>d.get(k, default)\<close>\<close>

definition dict_get :: "meta \<Rightarrow> string \<Rightarrow> pyval \<Rightarrow> pyval" where
  "dict_get d k dflt = (case d k of None \<Rightarrow> dflt | Some v \<Rightarrow> v)"

text \<open>A chunk is the dictionary \<open>{'content': ..., 'metadata': ...}\<close>.\<close>

record chunk =
  content :: string
  metadata :: meta

text \<open>The exceptions that occur in the modelled code.\<close>

datatype exn =
    AttributeError string
  | IndexError
  | KeyError string
  | ValueError string
  | TypeError string
  | ExternalError string

text \<open>
  \<open>xs[a:b]\<close>: Python slicing with its clamping of the bounds; a negative bound
  counts from the end. Slicing never raises.
\<close>

definition py_slice :: "'a list \<Rightarrow> int \<Rightarrow> int \<Rightarrow> 'a list" where
  "py_slice xs a b =
     (let n = int (length xs);
          a' = (if a < 0 then max 0 (a + n) else min a n);
          b' = (if b < 0 then max 0 (b + n) else min b n)
      in take (nat (b' - a')) (drop (nat a') xs))"

section \<open>Regular expressions\<close>

text \<open>
  The patterns of the source are sequences of literals and of repeated character
  classes. An atom is a literal (\<open>LitI\<close>: compared under \<open>re.IGNORECASE\<close>) or a
  repetition \<open>Rep cls lo hi greedy\<close> of a class, at least \<open>lo\<close> and at most \<open>hi\<close>
  times (\<open>None\<close>: unbounded), greedy or lazy. An item is an atom, possibly inside a
  capturing group. The matcher enumerates the matches at the start of the string in
  the order in which the backtracking matcher of \<open>re\<close> tries them, so the head of the
  list is the match \<open>re\<close> reports. A match is the list of captured groups and the
  rest of the string after the match.
\<close>

datatype atom =
    Lit string
  | LitI string
  | Rep "char \<Rightarrow> bool" nat "nat option" bool

datatype item = Plain atom | Group atom

fun atom_lengths :: "atom \<Rightarrow> string \<Rightarrow> nat list" where
  "atom_lengths (Lit l) s = (if prefix l s then [length l] else [])"
| "atom_lengths (LitI l) s = (if prefix (lower l) (lower s) then [length l] else [])"
| "atom_lengths (Rep cls lo hi greedy) s =
     (let run = length (takeWhile cls s);
          most = (case hi of None \<Rightarrow> run | Some h \<Rightarrow> min h run);
          ns = [lo..<Suc most]
      in if greedy then rev ns else ns)"

fun match_items :: "item list \<Rightarrow> string \<Rightarrow> (string list \<times> string) list" where
  "match_items [] s = [([], s)]"
| "match_items (Plain a # p) s =
     concat (map (\<lambda>n. match_items p (drop n s)) (atom_lengths a s))"
| "match_items (Group a # p) s =
     concat (map (\<lambda>n. map (\<lambda>(gs, r). (take n s # gs, r)) (match_items p (drop n s)))
                 (atom_lengths a s))"

text \<open>\<open>re.match(p, s)\<close>: the pattern at the start of \<open>s\<close>.\<close>

definition re_match :: "item list \<Rightarrow> string \<Rightarrow> (string list \<times> string) option" where
  "re_match p s = (case match_items p s of [] \<Rightarrow> None | m # _ \<Rightarrow> Some m)"

text \<open>\<open>re.search(p, s)\<close>: the first position of \<open>s\<close> where the pattern matches.\<close>

fun re_search :: "item list \<Rightarrow> string \<Rightarrow> (string list \<times> string) option" where
  "re_search p [] = re_match p []"
| "re_search p (c # cs) =
     (case re_match p (c # cs) of Some m \<Rightarrow> Some m | None \<Rightarrow> re_search p cs)"

text \<open>
  \<open>re.split(p, s)\<close> for a pattern without groups whose matches are never empty (the
  two patterns split on both begin with a literal character). The second argument is
  the piece being read, reversed.
\<close>

function re_split_from :: "item list \<Rightarrow> string \<Rightarrow> string \<Rightarrow> string list" where
  "re_split_from p cur [] = [rev cur]"
| "re_split_from p cur (c # cs) =
     (case re_match p (c # cs) of
        None \<Rightarrow> re_split_from p (c # cur) cs
      | Some (gs, rest) \<Rightarrow>
          if length rest < length (c # cs)
          then rev cur # re_split_from p [] rest
          else re_split_from p (c # cur) cs)"
  by pat_completeness auto
termination
  by (relation "measure (\<lambda>(p, cur, s). length s)") auto

definition re_split :: "item list \<Rightarrow> string \<Rightarrow> string list" where
  "re_split p s = re_split_from p [] s"

text \<open>
  \<open>re.sub(p, '', s)\<close> for a pattern anchored with \<open>^\<close> whose matches are never
  empty: the only possible match is at the start of \<open>s\<close>.
\<close>

definition re_sub_start :: "item list \<Rightarrow> string \<Rightarrow> string" where
  "re_sub_start p s = (case re_match p s of None \<Rightarrow> s | Some (gs, rest) \<Rightarrow> rest)"

text \<open>\<open>m.group(1)\<close> of a match of a pattern with one group.\<close>

definition group1 :: "string list \<times> string \<Rightarrow> string" where
  "group1 m = (case fst m of [] \<Rightarrow> [] | g # _ \<Rightarrow> g)"

abbreviation spaces0 :: atom where "spaces0 \<equiv> Rep is_space 0 None True"
abbreviation spaces1 :: atom where "spaces1 \<equiv> Rep is_space 1 None True"
abbreviation words1 :: atom where "words1 \<equiv> Rep is_word 1 None True"

text \<open>\<open>.*?\<close>: the dot matches every character but the newline.\<close>

abbreviation any_lazy :: atom where "any_lazy \<equiv> Rep (\<lambda>c. c \<noteq> newline) 0 None False"

section \<open>\<open>ChunkingService\<close>\<close>

text \<open>The attributes set by \<open>__init__\<close>.\<close>

record chunking_service =
  max_chunk_size :: int
  overlap_size :: int

definition init_chunking_service :: chunking_service where
  "init_chunking_service = \<lparr>max_chunk_size = 1000, overlap_size = 100\<rparr>"

subsection \<open>\<open>_chunk_by_lines\<close>\<close>

text \<open>
  The chunk appended when the running group \<open>cur\<close> is closed; \<open>e\<close> is the value of
  \<open>end_line\<close> (\<open>i\<close> inside the loop, \<open>len(lines)\<close> after it).
\<close>

definition line_chunk :: "meta \<Rightarrow> string list \<Rightarrow> int \<Rightarrow> chunk" where
  "line_chunk md cur e =
     \<lparr>content = join [newline] cur,
      metadata = md(''start_line'' \<mapsto> PInt (e - int (length cur) + 1),
                    ''end_line'' \<mapsto> PInt e,
                    ''chunk_type'' \<mapsto> PStr ''line_based'',
                    ''line_count'' \<mapsto> PInt (int (length cur)))\<rparr>"

text \<open>
  The \<open>for i, line in enumerate(lines)\<close> loop. The state is
  \<open>(chunks, current_chunk, current_size)\<close>; \<open>i\<close> is the index of the head of the
  remaining lines.
\<close>

fun lines_loop ::
  "meta \<Rightarrow> int \<Rightarrow> nat \<Rightarrow> string list \<Rightarrow> chunk list \<times> string list \<times> int
     \<Rightarrow> chunk list \<times> string list \<times> int" where
  "lines_loop md chunk_size i [] st = st"
| "lines_loop md chunk_size i (line # rest) (chunks, cur, cur_size) =
     (let line_size = int (length (split_ws line));
          (chunks', cur', cur_size') =
             (if cur_size + line_size > chunk_size \<and> cur \<noteq> []
              then (chunks @ [line_chunk md cur (int i)], [], 0)
              else (chunks, cur, cur_size))
      in lines_loop md chunk_size (Suc i) rest
           (chunks', cur' @ [line], cur_size' + line_size))"

text \<open>
  \<open>_chunk_by_lines(content, metadata, chunk_size=None, preserve_structure=False)\<close>.
  The flag \<open>preserve_structure\<close> is accepted and never read.
\<close>

definition chunk_by_lines ::
  "chunking_service \<Rightarrow> string \<Rightarrow> meta \<Rightarrow> int option \<Rightarrow> bool \<Rightarrow> chunk list" where
  "chunk_by_lines self txt md chunk_size preserve_structure =
     (let chunk_size = (case chunk_size of None \<Rightarrow> max_chunk_size self | Some k \<Rightarrow> k);
          lines = split_on newline txt;
          (chunks, cur, cur_size) = lines_loop md chunk_size 0 lines ([], [], 0)
      in if cur \<noteq> []
         then chunks @ [line_chunk md cur (int (length lines))]
         else chunks)"

subsection \<open>\<open>_chunk_by_paragraphs\<close>\<close>

definition paragraph_chunk :: "meta \<Rightarrow> string list \<Rightarrow> chunk" where
  "paragraph_chunk md cur =
     \<lparr>content = join [newline, newline] cur,
      metadata = md(''chunk_type'' \<mapsto> PStr ''paragraph_group'',
                    ''paragraph_count'' \<mapsto> PInt (int (length cur)))\<rparr>"

text \<open>
  The \<open>for para in paragraphs\<close> loop on the state
  \<open>(chunks, current_chunk, current_size)\<close>. After a chunk is closed the last paragraph
  is kept as overlap when \<open>overlap_size\<close> is positive; \<open>current_chunk[0]\<close> raises
  \<open>IndexError\<close> on an empty list.
\<close>

fun paragraphs_loop ::
  "chunking_service \<Rightarrow> meta \<Rightarrow> string list \<Rightarrow> chunk list \<times> string list \<times> int
     \<Rightarrow> exn + chunk list \<times> string list \<times> int" where
  "paragraphs_loop self md [] st = Inr st"
| "paragraphs_loop self md (para # rest) (chunks, cur, cur_size) =
     (let para_size = int (length (split_ws para))
      in if cur_size + para_size > max_chunk_size self \<and> cur \<noteq> []
         then (let chunks' = chunks @ [paragraph_chunk md cur]
               in if overlap_size self > 0 \<and> cur \<noteq> []
                  then (case py_slice cur (- 1) (int (length cur)) of
                          [] \<Rightarrow> Inl IndexError
                        | p # ps \<Rightarrow>
                            paragraphs_loop self md rest
                              (chunks', (p # ps) @ [para],
                               int (length (split_ws p)) + para_size))
                  else paragraphs_loop self md rest (chunks', [] @ [para], 0 + para_size))
         else paragraphs_loop self md rest (chunks, cur @ [para], cur_size + para_size))"

text \<open>The pattern \<open>\n\s*\n\<close>.\<close>

definition paragraph_sep :: "item list" where
  "paragraph_sep = [Plain (Lit [newline]), Plain spaces0, Plain (Lit [newline])]"

definition chunk_by_paragraphs :: "chunking_service \<Rightarrow> string \<Rightarrow> meta \<Rightarrow> exn + chunk list" where
  "chunk_by_paragraphs self txt md =
     (case paragraphs_loop self md (re_split paragraph_sep txt) ([], [], 0) of
        Inl e \<Rightarrow> Inl e
      | Inr (chunks, cur, cur_size) \<Rightarrow>
          Inr (if cur \<noteq> [] then chunks @ [paragraph_chunk md cur] else chunks))"

subsection \<open>\<open>_chunk_markdown\<close>\<close>

text \<open>The pattern \<open>^#{1,6}\s+\<close> of a heading line.\<close>

definition heading_re :: "item list" where
  "heading_re = [Plain (Rep (\<lambda>c. c = CHR ''#'') 1 (Some 6) True), Plain spaces1]"

text \<open>The pattern \<open>^#+\s*\<close> removed from a heading to get its title.\<close>

definition heading_marks_re :: "item list" where
  "heading_marks_re = [Plain (Rep (\<lambda>c. c = CHR ''#'') 1 None True), Plain spaces0]"

text \<open>
  The indices \<open>i\<close> of the lines that satisfy \<open>hit\<close>, counted from the index \<open>i\<close> of
  the head: the \<open>for i, line in enumerate(lines)\<close> loops that collect boundaries.
\<close>

fun indices_where :: "(string \<Rightarrow> bool) \<Rightarrow> nat \<Rightarrow> string list \<Rightarrow> nat list" where
  "indices_where hit i [] = []"
| "indices_where hit i (line # rest) =
     (if hit line then i # indices_where hit (Suc i) rest
      else indices_where hit (Suc i) rest)"

definition is_heading :: "string \<Rightarrow> bool" where
  "is_heading line = (re_match heading_re line \<noteq> None)"

text \<open>
  The \<open>for i, start in enumerate(header_indices)\<close> loop; \<open>end\<close> is the next heading
  index, or \<open>len(lines)\<close> for the last one. \<open>section_lines[0]\<close> raises \<open>IndexError\<close>
  on an empty slice.
\<close>

fun markdown_sections :: "meta \<Rightarrow> string list \<Rightarrow> nat list \<Rightarrow> exn + chunk list" where
  "markdown_sections md lines [] = Inr []"
| "markdown_sections md lines (start # later) =
     (let end = (case later of [] \<Rightarrow> length lines | nxt # _ \<Rightarrow> nxt);
          section_lines = py_slice lines (int start) (int end)
      in case section_lines of
           [] \<Rightarrow> Inl IndexError
         | header_line # _ \<Rightarrow>
             (let c = \<lparr>content = join [newline] section_lines,
                        metadata = md(''start_line'' \<mapsto> PInt (int start + 1),
                                      ''end_line'' \<mapsto> PInt (int end),
                                      ''section_title'' \<mapsto>
                                         PStr (re_sub_start heading_marks_re header_line),
                                      ''chunk_type'' \<mapsto> PStr ''markdown_section'')\<rparr>
              in case markdown_sections md lines later of
                   Inl e \<Rightarrow> Inl e
                 | Inr cs \<Rightarrow> Inr (c # cs)))"

definition chunk_markdown :: "chunking_service \<Rightarrow> string \<Rightarrow> meta \<Rightarrow> exn + chunk list" where
  "chunk_markdown self txt md =
     (let lines = split_on newline txt;
          header_indices = indices_where is_heading 0 lines
      in if header_indices = [] then chunk_by_paragraphs self txt md
         else markdown_sections md lines header_indices)"

subsection \<open>\<open>chunk_document_text\<close>, \<open>chunk_config\<close>, \<open>chunk_web\<close>, \<open>chunk_generic\<close>\<close>

definition chunk_document_text :: "chunking_service \<Rightarrow> string \<Rightarrow> meta \<Rightarrow> exn + chunk list" where
  "chunk_document_text self txt md =
     (let file_type = dict_get md ''file_type'' (PStr ''.txt'')
      in if file_type = PStr ''.md'' then chunk_markdown self txt md
         else chunk_by_paragraphs self txt md)"

definition chunk_config :: "chunking_service \<Rightarrow> string \<Rightarrow> meta \<Rightarrow> chunk list" where
  "chunk_config self txt md =
     (if length txt < 2000
      then [\<lparr>content = txt,
             metadata = md(''chunk_type'' \<mapsto> PStr ''config_complete'',
                           ''start_line'' \<mapsto> PInt 1,
                           ''end_line'' \<mapsto> PInt (int (length (split_on newline txt))))\<rparr>]
      else chunk_by_lines self txt md (Some 800) False)"

definition chunk_web :: "chunking_service \<Rightarrow> string \<Rightarrow> meta \<Rightarrow> chunk list" where
  "chunk_web self txt md = chunk_by_lines self txt md (Some 800) False"

definition chunk_generic :: "chunking_service \<Rightarrow> string \<Rightarrow> meta \<Rightarrow> chunk list" where
  "chunk_generic self txt md = chunk_by_lines self txt md None False"

subsection \<open>\<open>chunk_sql\<close>\<close>

text \<open>The pattern \<open>;\s*\n\<close>.\<close>

definition statement_sep :: "item list" where
  "statement_sep = [Plain (Lit '';''), Plain spaces0, Plain (Lit [newline])]"

text \<open>
  The patterns \<open>^\s*CREATE\s+TABLE\<close>, \<open>^\s*CREATE\s+INDEX\<close>, \<open>^\s*INSERT\<close> and
  \<open>^\s*SELECT\<close>, all matched with \<open>re.IGNORECASE\<close>.
\<close>

definition create_table_re :: "item list" where
  "create_table_re =
     [Plain spaces0, Plain (LitI ''CREATE''), Plain spaces1, Plain (LitI ''TABLE'')]"

definition create_index_re :: "item list" where
  "create_index_re =
     [Plain spaces0, Plain (LitI ''CREATE''), Plain spaces1, Plain (LitI ''INDEX'')]"

definition insert_re :: "item list" where
  "insert_re = [Plain spaces0, Plain (LitI ''INSERT'')]"

definition select_re :: "item list" where
  "select_re = [Plain spaces0, Plain (LitI ''SELECT'')]"

definition statement_type :: "string \<Rightarrow> string" where
  "statement_type statement =
     (if re_match create_table_re statement \<noteq> None then ''CREATE_TABLE''
      else if re_match create_index_re statement \<noteq> None then ''CREATE_INDEX''
      else if re_match insert_re statement \<noteq> None then ''INSERT''
      else if re_match select_re statement \<noteq> None then ''SELECT''
      else ''UNKNOWN'')"

text \<open>
  The \<open>for i, statement in enumerate(statements)\<close> loop; \<open>i\<close> is the index of the
  head of the remaining statements.
\<close>

fun sql_loop :: "meta \<Rightarrow> nat \<Rightarrow> string list \<Rightarrow> chunk list" where
  "sql_loop md i [] = []"
| "sql_loop md i (statement # rest) =
     (let statement = strip statement
      in if statement = [] then sql_loop md (Suc i) rest
         else \<lparr>content = statement,
               metadata = md(''statement_type'' \<mapsto> PStr (statement_type statement),
                             ''statement_index'' \<mapsto> PInt (int i + 1),
                             ''chunk_type'' \<mapsto> PStr ''sql_statement'')\<rparr>
              # sql_loop md (Suc i) rest)"

definition chunk_sql :: "chunking_service \<Rightarrow> string \<Rightarrow> meta \<Rightarrow> chunk list" where
  "chunk_sql self txt md = sql_loop md 0 (re_split statement_sep txt)"

subsection \<open>\<open>chunk_code\<close>: the syntax-tree tier\<close>

text \<open>
  \<open>tree_sitter_languages\<close> is an external library. What the code reads of it is
  modelled by a parameter: for a language and a source text, either an exception
  (the import, \<open>get_parser\<close> or \<open>parse\<close> raised), or no parser, or the children of
  the root node. Of a node the code reads its type, the rows of its start and end
  points, and the type and byte range of each child.
\<close>

record ts_child =
  child_type :: string
  start_byte :: nat
  end_byte :: nat

record ts_node =
  node_type :: string
  start_row :: nat
  end_row :: nat
  children :: "ts_child list"

type_synonym tree_sitter = "string \<Rightarrow> string \<Rightarrow> exn + ts_node list option"

definition definition_node_types :: "string list" where
  "definition_node_types =
     [''function_definition'', ''method_definition'', ''class_definition'',
      ''function_declaration'', ''method_declaration'']"

definition ast_chunk :: "string \<Rightarrow> meta \<Rightarrow> string list \<Rightarrow> ts_node \<Rightarrow> chunk" where
  "ast_chunk txt md lines node =
     (let start_line = int (start_row node);
          end_line = int (end_row node);
          node_lines = py_slice lines start_line (end_line + 1);
          function_name =
            (case find (\<lambda>child. child_type child = ''identifier'') (children node) of
               None \<Rightarrow> []
             | Some name_node \<Rightarrow>
                 py_slice txt (int (start_byte name_node)) (int (end_byte name_node)))
      in \<lparr>content = join [newline] node_lines,
          metadata = md(''start_line'' \<mapsto> PInt (start_line + 1),
                        ''end_line'' \<mapsto> PInt (end_line + 1),
                        ''function_name'' \<mapsto> PStr function_name,
                        ''node_type'' \<mapsto> PStr (node_type node),
                        ''chunk_type'' \<mapsto> PStr ''ast_function'')\<rparr>)"

text \<open>\<open>chunk['metadata'][k]\<close> read as an integer operand.\<close>

definition meta_int :: "chunk \<Rightarrow> string \<Rightarrow> exn + int" where
  "meta_int c k =
     (case metadata c k of
        None \<Rightarrow> Inl (KeyError k)
      | Some (PInt n) \<Rightarrow> Inr n
      | Some (PBool b) \<Rightarrow> Inr (if b then 1 else 0)
      | Some _ \<Rightarrow> Inl (TypeError ''unsupported operand type(s)''))"

text \<open>
  The \<open>for chunk in chunks\<close> loop that collects the lines between the extracted
  definitions, on the state \<open>(global_lines, current_line)\<close>.
\<close>

fun global_loop ::
  "string list \<Rightarrow> chunk list \<Rightarrow> string list \<times> int \<Rightarrow> exn + string list \<times> int" where
  "global_loop lines [] st = Inr st"
| "global_loop lines (c # cs) (global_lines, current_line) =
     (case meta_int c ''start_line'' of
        Inl e \<Rightarrow> Inl e
      | Inr sl \<Rightarrow>
          (let start = sl - 1;
               global_lines' =
                 (if current_line < start
                  then global_lines @ py_slice lines current_line start
                  else global_lines)
           in case meta_int c ''end_line'' of
                Inl e \<Rightarrow> Inl e
              | Inr el \<Rightarrow> global_loop lines cs (global_lines', el)))"

text \<open>The body of the \<open>try\<close> of \<open>_chunk_with_ast\<close>.\<close>

definition chunk_with_ast_body ::
  "tree_sitter \<Rightarrow> string \<Rightarrow> string \<Rightarrow> meta \<Rightarrow> exn + chunk list" where
  "chunk_with_ast_body ts txt language md =
     (case ts language txt of
        Inl e \<Rightarrow> Inl e
      | Inr None \<Rightarrow> Inr []
      | Inr (Some nodes) \<Rightarrow>
          (let lines = split_on newline txt;
               chunks = map (ast_chunk txt md lines)
                          (filter (\<lambda>node. node_type node \<in> set definition_node_types) nodes)
           in if chunks \<noteq> []
              then (case global_loop lines chunks ([], 0) of
                      Inl e \<Rightarrow> Inl e
                    | Inr (global_lines, current_line) \<Rightarrow>
                        (let global_lines' =
                               (if current_line < int (length lines)
                                then global_lines
                                       @ py_slice lines current_line (int (length lines))
                                else global_lines);
                             global_content = strip (join [newline] global_lines')
                         in if global_lines' \<noteq> [] \<and> global_content \<noteq> []
                            then Inr (\<lparr>content = global_content,
                                       metadata = md(''chunk_type'' \<mapsto> PStr ''ast_global'',
                                                     ''start_line'' \<mapsto> PInt 1,
                                                     ''end_line'' \<mapsto> PInt (int (length lines)))\<rparr>
                                      # chunks)
                            else Inr chunks))
              else Inr chunks))"

text \<open>\<open>_chunk_with_ast\<close>: \<open>ImportError\<close> and every other exception give \<open>[]\<close>.\<close>

definition chunk_with_ast :: "tree_sitter \<Rightarrow> string \<Rightarrow> string \<Rightarrow> meta \<Rightarrow> chunk list" where
  "chunk_with_ast ts txt language md =
     (case chunk_with_ast_body ts txt language md of Inl e \<Rightarrow> [] | Inr chunks \<Rightarrow> chunks)"

subsection \<open>\<open>chunk_code\<close>: the pattern tier\<close>

text \<open>
  The boundary patterns by language. Each pattern of the source is one group around
  the whole expression; only whether it matches is read, so the group is left out.
\<close>

definition patterns :: "(string \<times> item list list) list" where
  "patterns =
     [(''python'',
        [[Plain (Lit ''def''), Plain spaces1, Plain words1, Plain any_lazy, Plain (Lit '':'')],
         [Plain (Lit ''class''), Plain spaces1, Plain words1, Plain any_lazy, Plain (Lit '':'')],
         [Plain (Lit ''async''), Plain spaces1, Plain (Lit ''def''), Plain spaces1, Plain words1,
          Plain any_lazy, Plain (Lit '':'')]]),
      (''javascript'',
        [[Plain (Lit ''function''), Plain spaces1, Plain words1, Plain any_lazy,
          Plain (Lit ''{'')],
         [Plain (Lit ''const''), Plain spaces1, Plain words1, Plain spaces0, Plain (Lit ''=''),
          Plain spaces0, Plain any_lazy, Plain (Lit ''=>'')],
         [Plain (Lit ''class''), Plain spaces1, Plain words1, Plain any_lazy, Plain (Lit ''{'')]]),
      (''java'',
        [[Plain spaces0, Plain (Lit ''public''), Plain spaces1, Plain any_lazy, Plain (Lit ''{'')],
         [Plain spaces0, Plain (Lit ''private''), Plain spaces1, Plain any_lazy,
          Plain (Lit ''{'')],
         [Plain spaces0, Plain (Lit ''protected''), Plain spaces1, Plain any_lazy,
          Plain (Lit ''{'')],
         [Plain spaces0, Plain (Lit ''class''), Plain spaces1, Plain words1, Plain any_lazy,
          Plain (Lit ''{'')]])]"

text \<open>\<open>re.search(kw + r'\s+(\w+)', line)\<close> for a keyword \<open>kw\<close>.\<close>

definition name_after :: "string \<Rightarrow> item list" where
  "name_after kw = [Plain (Lit kw), Plain spaces1, Group words1]"

text \<open>The pattern \<open>\w+\s+(\w+)\s*\(\<close>.\<close>

definition java_method_re :: "item list" where
  "java_method_re =
     [Plain words1, Plain spaces1, Group words1, Plain spaces0, Plain (Lit ''('')]"

text \<open>
  \<open>_extract_function_name\<close>: in each language the first of two searches that
  matches gives the name, otherwise the empty string.
\<close>

definition first_group :: "item list \<Rightarrow> item list \<Rightarrow> string \<Rightarrow> string" where
  "first_group p q line =
     (case re_search p line of
        Some m \<Rightarrow> group1 m
      | None \<Rightarrow> (case re_search q line of Some m \<Rightarrow> group1 m | None \<Rightarrow> []))"

definition extract_function_name :: "string \<Rightarrow> string \<Rightarrow> string" where
  "extract_function_name line language =
     (if language = ''python'' then first_group (name_after ''def'') (name_after ''class'') line
      else if language = ''javascript''
      then first_group (name_after ''function'') (name_after ''const'') line
      else if language = ''java'' then first_group (name_after ''class'') java_method_re line
      else [])"

text \<open>
  The \<open>for i, start in enumerate(boundaries)\<close> loop; \<open>chunk_lines[0]\<close> raises
  \<open>IndexError\<close> on an empty slice.
\<close>

fun regex_sections :: "meta \<Rightarrow> string \<Rightarrow> string list \<Rightarrow> nat list \<Rightarrow> exn + chunk list" where
  "regex_sections md language lines [] = Inr []"
| "regex_sections md language lines (start # later) =
     (let end = (case later of [] \<Rightarrow> length lines | nxt # _ \<Rightarrow> nxt);
          chunk_lines = py_slice lines (int start) (int end)
      in case chunk_lines of
           [] \<Rightarrow> Inl IndexError
         | l # _ \<Rightarrow>
             (let first_line = strip l;
                  c = \<lparr>content = join [newline] chunk_lines,
                        metadata = md(''start_line'' \<mapsto> PInt (int start + 1),
                                      ''end_line'' \<mapsto> PInt (int end),
                                      ''function_name'' \<mapsto>
                                         PStr (extract_function_name first_line language),
                                      ''chunk_type'' \<mapsto> PStr ''regex_function'')\<rparr>
              in case regex_sections md language lines later of
                   Inl e \<Rightarrow> Inl e
                 | Inr cs \<Rightarrow> Inr (c # cs)))"

definition chunk_with_regex :: "string \<Rightarrow> string \<Rightarrow> meta \<Rightarrow> exn + chunk list" where
  "chunk_with_regex txt language md =
     (let lines = split_on newline txt
      in case map_of patterns language of
           None \<Rightarrow> Inr []
         | Some pats \<Rightarrow>
             (let boundaries =
                    indices_where
                      (\<lambda>line. list_ex (\<lambda>p. re_match p (strip line) \<noteq> None) pats) 0 lines
              in if boundaries = [] then Inr []
                 else regex_sections md language lines boundaries))"

subsection \<open>\<open>chunk_code\<close>\<close>

definition LANGUAGE_MAPPING :: "(string \<times> string) list" where
  "LANGUAGE_MAPPING =
     [(''.py'', ''python''), (''.js'', ''javascript''), (''.ts'', ''typescript''),
      (''.jsx'', ''javascript''), (''.tsx'', ''typescript''), (''.java'', ''java''),
      (''.cpp'', ''cpp''), (''.c'', ''c''), (''.h'', ''c''), (''.go'', ''go''),
      (''.rs'', ''rust''), (''.rb'', ''ruby''), (''.php'', ''php''), (''.swift'', ''swift''),
      (''.kt'', ''kotlin''), (''.scala'', ''scala''), (''.html'', ''html''), (''.css'', ''css''),
      (''.scss'', ''scss''), (''.sass'', ''sass''), (''.sql'', ''sql''), (''.json'', ''json''),
      (''.yaml'', ''yaml''), (''.yml'', ''yaml''), (''.toml'', ''toml''), (''.xml'', ''xml''),
      (''.md'', ''markdown''), (''.txt'', ''text''), (''.sh'', ''bash''), (''.bat'', ''batch''),
      (''.ps1'', ''powershell'')]"

text \<open>\<open>LANGUAGE_MAPPING.get(file_type, 'text')\<close>: only a string can be a key.\<close>

definition language_of :: "pyval \<Rightarrow> string" where
  "language_of file_type =
     (case file_type of
        PStr ext \<Rightarrow> (case map_of LANGUAGE_MAPPING ext of None \<Rightarrow> ''text'' | Some l \<Rightarrow> l)
      | _ \<Rightarrow> ''text'')"

text \<open>
  The three tiers. \<open>_chunk_with_ast\<close> catches its own exceptions, so the first
  \<open>try\<close> has nothing to catch; an exception of the pattern tier is caught and leads
  to the line-based tier, like an empty result.
\<close>

definition chunk_code :: "chunking_service \<Rightarrow> tree_sitter \<Rightarrow> string \<Rightarrow> meta \<Rightarrow> chunk list" where
  "chunk_code self ts txt md =
     (let file_type = dict_get md ''file_type'' (PStr ''.py'');
          language = language_of file_type;
          ast_chunks = chunk_with_ast ts txt language md
      in if ast_chunks \<noteq> [] then ast_chunks
         else (case chunk_with_regex txt language md of
                 Inr regex_chunks \<Rightarrow>
                   if regex_chunks \<noteq> [] then regex_chunks
                   else chunk_by_lines self txt md None True
               | Inl e \<Rightarrow> chunk_by_lines self txt md None True))"

subsection \<open>\<open>chunk_document\<close>\<close>

definition code_types :: "string list" where
  "code_types =
     [''.py'', ''.js'', ''.ts'', ''.jsx'', ''.tsx'', ''.java'', ''.cpp'', ''.c'', ''.h'',
      ''.go'', ''.rs'', ''.rb'', ''.php'', ''.swift'', ''.kt'', ''.scala'']"

definition config_types :: "string list" where
  "config_types = [''.json'', ''.yaml'', ''.yml'', ''.toml'', ''.ini'', ''.xml'', ''.properties'']"

definition text_types :: "string list" where
  "text_types = [''.md'', ''.txt'', ''.rst'']"

definition web_types :: "string list" where
  "web_types = [''.html'', ''.css'', ''.scss'', ''.sass'']"

text \<open>
  \<open>self.chunk_csv\<close>: the class defines no such method, so the attribute lookup
  raises \<open>AttributeError\<close> before anything is called.
\<close>

definition chunk_csv :: "chunking_service \<Rightarrow> string \<Rightarrow> meta \<Rightarrow> exn + chunk list" where
  "chunk_csv self txt md =
     Inl (AttributeError ''ChunkingService object has no attribute chunk_csv'')"

text \<open>The body of the \<open>try\<close> of \<open>chunk_document\<close>: the dispatch on \<open>file_type\<close>.\<close>

definition dispatch ::
  "chunking_service \<Rightarrow> tree_sitter \<Rightarrow> string \<Rightarrow> meta \<Rightarrow> exn + chunk list" where
  "dispatch self ts txt md =
     (let file_type = dict_get md ''file_type'' (PStr ''.txt'')
      in if file_type \<in> set (map PStr code_types) then Inr (chunk_code self ts txt md)
         else if file_type \<in> set (map PStr config_types) then Inr (chunk_config self txt md)
         else if file_type \<in> set (map PStr text_types) then chunk_document_text self txt md
         else if file_type = PStr ''.sql'' then Inr (chunk_sql self txt md)
         else if file_type \<in> set (map PStr web_types) then Inr (chunk_web self txt md)
         else if file_type = PStr ''.csv'' then chunk_csv self txt md
         else Inr (chunk_generic self txt md))"

text \<open>
  \<open>chunk_document\<close>: an exception of the dispatch is caught and answered by
  \<open>chunk_generic\<close>, which is called outside the \<open>try\<close>.
\<close>

definition chunk_document ::
  "chunking_service \<Rightarrow> tree_sitter \<Rightarrow> string \<Rightarrow> meta \<Rightarrow> exn + chunk list" where
  "chunk_document self ts txt md =
     (case dispatch self ts txt md of
        Inr chunks \<Rightarrow> Inr chunks
      | Inl e \<Rightarrow> Inr (chunk_generic self txt md))"

section \<open>\<open>RAGPipeline\<close>: the CSV path\<close>

text \<open>\<open>str(n)\<close> and the format \<open>{n:,}\<close> of an integer.\<close>

definition digit_char :: "nat \<Rightarrow> char" where
  "digit_char d = char_of (48 + d)"

fun str_nat :: "nat \<Rightarrow> string" where
  "str_nat n = (if n < 10 then [digit_char n] else str_nat (n div 10) @ [digit_char (n mod 10)])"

declare str_nat.simps [simp del]

definition str_int :: "int \<Rightarrow> string" where
  "str_int n = (if n < 0 then ''-'' @ str_nat (nat (- n)) else str_nat (nat n))"

text \<open>A comma after every third digit, on the reversed digits.\<close>

fun group_thousands :: "string \<Rightarrow> string" where
  "group_thousands (a # b # c # d # rest) = a # b # c # CHR '','' # group_thousands (d # rest)"
| "group_thousands ds = ds"

definition format_comma :: "int \<Rightarrow> string" where
  "format_comma n =
     (if n < 0 then ''-'' else []) @ rev (group_thousands (rev (str_nat (nat \<bar>n\<bar>))))"

text \<open>\<open>str(v)\<close>, as an f-string renders a value without a format.\<close>

definition py_str :: "pyval \<Rightarrow> string" where
  "py_str v =
     (case v of
        PStr s \<Rightarrow> s
      | PInt n \<Rightarrow> str_int n
      | PBool b \<Rightarrow> (if b then ''True'' else ''False'')
      | PNone \<Rightarrow> ''None'')"

text \<open>
  The format \<open>{v:,}\<close> of a dictionary value: a string raises \<open>ValueError\<close>,
  \<open>None\<close> raises \<open>TypeError\<close>, a boolean is formatted as the integer it is.
\<close>

definition py_format_comma :: "pyval \<Rightarrow> exn + string" where
  "py_format_comma v =
     (case v of
        PInt n \<Rightarrow> Inr (format_comma n)
      | PBool b \<Rightarrow> Inr (if b then ''1'' else ''0'')
      | PStr s \<Rightarrow> Inl (ValueError ''Cannot specify ',' with 's'.'')
      | PNone \<Rightarrow> Inl (TypeError ''unsupported format string passed to NoneType.__format__''))"

text \<open>\<open>str(e)\<close> of the two exceptions formatting can raise.\<close>

definition exn_str :: "exn \<Rightarrow> string" where
  "exn_str e = (case e of ValueError m \<Rightarrow> m | TypeError m \<Rightarrow> m | _ \<Rightarrow> [])"

text \<open>\<open>len(header.split(',')) if header else 0\<close>\<close>

definition column_count :: "string \<Rightarrow> int" where
  "column_count header = (if header \<noteq> [] then int (length (split_on CHR '','' header)) else 0)"

text \<open>
  \<open>_process_large_csv_content\<close>, for content above the size ceiling. Nothing in its
  \<open>try\<close> can raise on these values, so its handler is never entered.
\<close>

definition process_large_csv_content :: "string \<Rightarrow> meta \<Rightarrow> chunk list" where
  "process_large_csv_content txt md =
     (let filename = dict_get md ''file_name'' (PStr ''unknown.csv'');
          preview_content = py_slice txt 0 1000;
          lines = split_on newline preview_content
      in case lines of
           [] \<Rightarrow> []
         | header # _ \<Rightarrow>
             (let estimated_rows = int (length txt) div 100;
                  header_chunk =
                    \<lparr>content = ''Very Large CSV File: '' @ py_str filename @ [newline]
                         @ ''Columns: '' @ header @ [newline]
                         @ ''Estimated Rows: ~'' @ format_comma estimated_rows @ [newline]
                         @ ''File Size: '' @ format_comma (int (length txt)) @ '' bytes''
                         @ [newline]
                         @ ''Note: This is a large dataset - only header and sample processed for performance.'',
                     metadata = md(''chunk_type'' \<mapsto> PStr ''csv_header_very_large'',
                                   ''estimated_rows'' \<mapsto> PInt estimated_rows,
                                   ''columns_str'' \<mapsto> PStr header,
                                   ''column_count'' \<mapsto> PInt (column_count header),
                                   ''file_size_bytes'' \<mapsto> PInt (int (length txt)),
                                   ''is_large_dataset'' \<mapsto> PBool True)\<rparr>;
                  sample_lines = (if length lines > 1 then py_slice lines 1 6 else [])
              in if sample_lines \<noteq> []
                 then [header_chunk,
                       \<lparr>content = ''Sample from large CSV '' @ py_str filename @ '':''
                          @ [newline] @ header @ [newline] @ join [newline] sample_lines
                          @ [newline, newline] @ ''... (File contains ~''
                          @ format_comma estimated_rows @ '' total rows)'',
                        metadata = md(''chunk_type'' \<mapsto> PStr ''csv_sample_very_large'',
                                      ''sample_size'' \<mapsto> PInt (int (length sample_lines)),
                                      ''is_large_dataset'' \<mapsto> PBool True)\<rparr>]
                 else [header_chunk]))"

text \<open>
  The \<open>try\<close> of \<open>_process_csv_content\<close>: the chunks appended so far, and the
  exception if one was raised. Only the format of \<open>file_size\<close> in the statistics
  can raise.
\<close>

definition csv_try :: "string \<Rightarrow> meta \<Rightarrow> pyval \<Rightarrow> string list \<Rightarrow> chunk list \<times> exn option" where
  "csv_try txt md filename lines =
     (let header = (case lines of [] \<Rightarrow> [] | h # _ \<Rightarrow> h);
          row_count = int (length lines) - 1
      in if length lines \<le> 1000
         then (let header_chunk =
                     \<lparr>content = ''CSV File: '' @ py_str filename @ [newline]
                          @ ''Columns: '' @ header @ [newline]
                          @ ''Total Rows: '' @ str_int row_count,
                      metadata = md(''chunk_type'' \<mapsto> PStr ''csv_header'',
                                    ''row_count'' \<mapsto> PInt row_count,
                                    ''columns_str'' \<mapsto> PStr header,
                                    ''column_count'' \<mapsto> PInt (column_count header))\<rparr>;
                    sample_rows = (if length lines > 1 then py_slice lines 1 11 else [])
               in if sample_rows \<noteq> []
                  then ([header_chunk,
                         \<lparr>content = ''Sample data from '' @ py_str filename @ '':'' @ [newline]
                            @ header @ [newline] @ join [newline] sample_rows,
                          metadata = md(''chunk_type'' \<mapsto> PStr ''csv_sample'',
                                        ''sample_size'' \<mapsto> PInt (int (length sample_rows)))\<rparr>],
                        None)
                  else ([header_chunk], None))
         else (let header_chunk =
                     \<lparr>content = ''Large CSV File: '' @ py_str filename @ [newline]
                          @ ''Columns: '' @ header @ [newline]
                          @ ''Total Rows: '' @ str_int row_count,
                      metadata = md(''chunk_type'' \<mapsto> PStr ''csv_header_large'',
                                    ''row_count'' \<mapsto> PInt row_count,
                                    ''columns_str'' \<mapsto> PStr header,
                                    ''column_count'' \<mapsto> PInt (column_count header))\<rparr>;
                    sample_rows = (if length lines > 1 then py_slice lines 1 21 else []);
                    chunks =
                      (if sample_rows \<noteq> []
                       then [header_chunk,
                             \<lparr>content = ''Sample from '' @ py_str filename
                                @ '' (first 20 rows):'' @ [newline]
                                @ header @ [newline] @ join [newline] sample_rows,
                              metadata = md(''chunk_type'' \<mapsto> PStr ''csv_sample_large'',
                                            ''sample_size'' \<mapsto>
                                               PInt (int (length sample_rows)))\<rparr>]
                       else [header_chunk])
               in case py_format_comma (dict_get md ''file_size'' (PInt 0)) of
                    Inl e \<Rightarrow> (chunks, Some e)
                  | Inr file_size \<Rightarrow>
                      (chunks @
                       [\<lparr>content = ''Statistics for '' @ py_str filename @ '':'' @ [newline]
                           @ ''- Total records: '' @ format_comma row_count @ [newline]
                           @ ''- Columns: '' @ str_int (column_count header) @ [newline]
                           @ ''- File size: '' @ file_size @ '' bytes'' @ [newline]
                           @ ''- Data type: Large dataset suitable for analysis'' @ [newline],
                         metadata = md(''chunk_type'' \<mapsto> PStr ''csv_statistics'',
                                       ''is_large_dataset'' \<mapsto> PBool True)\<rparr>],
                       None)))"

text \<open>
  \<open>_process_csv_content\<close>: an exception of the \<open>try\<close> adds a fallback chunk after
  the chunks already appended.
\<close>

definition process_csv_content :: "string \<Rightarrow> meta \<Rightarrow> chunk list" where
  "process_csv_content txt md =
     (if length txt > 10000000 then process_large_csv_content txt md
      else (let lines = split_on newline (strip txt)
            in if lines = [] then []
               else (let filename = dict_get md ''file_name'' (PStr ''unknown.csv'')
                     in case csv_try txt md filename lines of
                          (chunks, None) \<Rightarrow> chunks
                        | (chunks, Some e) \<Rightarrow>
                            chunks @
                            [\<lparr>content = ''CSV File: '' @ py_str filename @ [newline]
                                @ ''Content preview:'' @ [newline]
                                @ py_slice txt 0 1000 @ ''...'',
                              metadata = md(''chunk_type'' \<mapsto> PStr ''csv_fallback'',
                                            ''processing_error'' \<mapsto> PStr (exn_str e))\<rparr>])))"

text \<open>
  The first step of \<open>add_document\<close>, which selects the chunks of a document: CSV
  content goes to \<open>_process_csv_content\<close>, everything else to a fresh
  \<open>ChunkingService\<close>.
\<close>

definition add_document_chunks :: "tree_sitter \<Rightarrow> string \<Rightarrow> meta \<Rightarrow> exn + chunk list" where
  "add_document_chunks ts txt md =
     (if dict_get md ''file_type'' PNone = PStr ''.csv'' then Inr (process_csv_content txt md)
      else chunk_document init_chunking_service ts txt md)"

section \<open>The query router: \<open>should_use_rag\<close>\<close>

definition simple_patterns :: "string list" where
  "simple_patterns =
     [''hi'', ''hello'', ''hey'', ''good morning'', ''good afternoon'', ''good evening'',
      ''how are you'', ''what's up'', ''thanks'', ''thank you'', ''bye'', ''goodbye'',
      ''ok'', ''okay'', ''yes'', ''no'', ''sure'', ''great'', ''awesome'', ''cool'']"

definition project_keywords :: "string list" where
  "project_keywords =
     [''project'', ''code'', ''api'', ''endpoint'', ''backend'', ''frontend'', ''docker'',
      ''fastapi'', ''streamlit'', ''chromadb'', ''groq'', ''rag'', ''database'',
      ''deployment'', ''container'', ''service'', ''function'', ''class'', ''method'',
      ''error'', ''bug'', ''fix'', ''implement'', ''create'', ''add'', ''modify'', ''update'',
      ''architecture'', ''structure'', ''design'', ''pattern'', ''configuration'',
      ''troubleshoot'', ''debug'', ''optimize'', ''performance'']"

definition project_phrases :: "string list" where
  "project_phrases =
     [''this project'', ''my project'', ''our project'', ''this code'', ''my code'']"

definition should_use_rag :: "string \<Rightarrow> bool" where
  "should_use_rag message =
     (let message_lower = strip (lower message)
      in if list_ex (\<lambda>pattern. contains pattern message_lower) simple_patterns
            \<and> length (split_ws message) \<le> 3
         then False
         else if list_ex (\<lambda>keyword. contains keyword message_lower) project_keywords
         then True
         else if list_ex (\<lambda>word. contains word message_lower) project_phrases
         then True
         else False)"

section \<open>\<open>EmbeddingService\<close>: the hash-based fallback\<close>

text \<open>
  The attributes of the service. \<open>hashlib.sha256(s.encode()).digest()\<close> is a
  parameter, a function from the string to the bytes of its digest. Python's floats
  are modelled by the reals: the rounding of the float operations is not modelled.
\<close>

record embedding_service =
  embedding_provider :: string
  local_model :: "string option"

text \<open>\<open>int.from_bytes(bs, 'big')\<close>\<close>

definition from_bytes_big :: "nat list \<Rightarrow> nat" where
  "from_bytes_big bs = foldl (\<lambda>acc b. acc * 256 + b) 0 bs"

text \<open>The \<open>for j in range(0, min(32, dimension - i))\<close> loop, for \<open>count\<close> values of \<open>j\<close>.\<close>

definition hash_floats :: "nat list \<Rightarrow> nat \<Rightarrow> real list" where
  "hash_floats hash_bytes count =
     map (\<lambda>j. if j * 4 + 3 < length hash_bytes
              then (let byte_val =
                          from_bytes_big (py_slice hash_bytes (int (j * 4)) (int ((j + 1) * 4)))
                    in (real byte_val / (2 ^ 32 - 1)) * 2 - 1)
              else 0)
         [0..<count]"

text \<open>The \<open>for i in range(0, dimension, 32)\<close> loop, from \<open>i\<close> on.\<close>

function embedding_loop ::
  "(string \<Rightarrow> nat list) \<Rightarrow> string \<Rightarrow> int \<Rightarrow> int \<Rightarrow> real list \<Rightarrow> real list" where
  "embedding_loop sha256 txt dimension i embeddings =
     (if i < dimension
      then embedding_loop sha256 txt dimension (i + 32)
             (embeddings
                @ hash_floats (sha256 (txt @ ''_'' @ str_int i)) (nat (min 32 (dimension - i))))
      else embeddings)"
  by pat_completeness auto
termination
  by (relation "measure (\<lambda>(sha256, txt, dimension, i, embeddings). nat (dimension - i))") auto

declare embedding_loop.simps [simp del]

text \<open>\<open>_simple_hash_embedding(self, text, dimension=384)\<close>\<close>

definition simple_hash_embedding ::
  "embedding_service \<Rightarrow> (string \<Rightarrow> nat list) \<Rightarrow> string \<Rightarrow> int option \<Rightarrow> real list" where
  "simple_hash_embedding self sha256 txt dimension =
     (let dimension = (case dimension of None \<Rightarrow> 384 | Some d \<Rightarrow> d)
      in py_slice (embedding_loop sha256 txt dimension 0 []) 0 dimension)"

section \<open>Line ranges\<close>

text \<open>The recorded \<open>(start_line, end_line)\<close> of a chunk, when both are integers.\<close>

definition line_range :: "chunk \<Rightarrow> (int \<times> int) option" where
  "line_range c =
     (case (metadata c ''start_line'', metadata c ''end_line'') of
        (Some (PInt s), Some (PInt e)) \<Rightarrow> Some (s, e)
      | _ \<Rightarrow> None)"

text \<open>
  \<open>tiles a n rs\<close>: the ranges \<open>rs\<close>, in order, are non-empty, start at \<open>a\<close>, each
  starts right after the previous one ends, and the last ends at \<open>n\<close>.
\<close>

fun tiles :: "int \<Rightarrow> int \<Rightarrow> (int \<times> int) list \<Rightarrow> bool" where
  "tiles a n [] = (a = n + 1)"
| "tiles a n ((s, e) # rs) = (s = a \<and> s \<le> e \<and> tiles (e + 1) n rs)"

section \<open>Leading keywords of a statement\<close>

text \<open>
  What it means for a statement to begin with a keyword, or with two keywords in a
  row: after optional whitespace the keyword stands in any letter case, and two
  keywords are separated by at least one whitespace character. \<open>keyword_class\<close> is
  the classification by leading keyword, in the order CREATE TABLE, CREATE INDEX,
  INSERT, SELECT, and UNKNOWN otherwise.
\<close>

definition leading_keyword :: "string \<Rightarrow> string \<Rightarrow> bool" where
  "leading_keyword k st =
     (\<exists>ws u rest. st = ws @ u @ rest \<and> list_all is_space ws \<and> lower u = lower k)"

definition leading_keywords2 :: "string \<Rightarrow> string \<Rightarrow> string \<Rightarrow> bool" where
  "leading_keywords2 k1 k2 st =
     (\<exists>ws u gap v rest. st = ws @ u @ gap @ v @ rest \<and> list_all is_space ws
        \<and> lower u = lower k1 \<and> gap \<noteq> [] \<and> list_all is_space gap \<and> lower v = lower k2)"

definition keyword_class :: "string \<Rightarrow> string" where
  "keyword_class st =
     (if leading_keywords2 ''CREATE'' ''TABLE'' st then ''CREATE_TABLE''
      else if leading_keywords2 ''CREATE'' ''INDEX'' st then ''CREATE_INDEX''
      else if leading_keyword ''INSERT'' st then ''INSERT''
      else if leading_keyword ''SELECT'' st then ''SELECT''
      else ''UNKNOWN'')"

section \<open>Properties of \<open>_chunk_by_lines\<close>\<close>

lemma line_range_line_chunk:
  "line_range (line_chunk md cur e) = Some (e - int (length cur) + 1, e)"
  by (simp add: line_range_def line_chunk_def)

lemma tiles_snoc:
  "tiles a n rs \<Longrightarrow> s = n + 1 \<Longrightarrow> s \<le> e \<Longrightarrow> tiles a e (rs @ [(s, e)])"
  by (induction a n rs rule: tiles.induct) auto

text \<open>
  The loop invariant: the closed chunks tile the lines before the running group, and
  the running group is not empty once a line has been read.
\<close>

lemma lines_loop_tiles:
  "lines_loop md k i ls (chunks, cur, sz) = (chunks', cur', sz') \<Longrightarrow>
   map line_range chunks = map Some rs \<Longrightarrow>
   tiles 1 (int i - int (length cur)) rs \<Longrightarrow>
   length cur \<le> i \<Longrightarrow>
   \<exists>rs'. map line_range chunks' = map Some rs'
       \<and> tiles 1 (int (i + length ls) - int (length cur')) rs'
       \<and> length cur' \<le> i + length ls
       \<and> (ls \<noteq> [] \<longrightarrow> cur' \<noteq> [])
       \<and> (cur \<noteq> [] \<longrightarrow> cur' \<noteq> [])"
proof (induction ls arbitrary: i chunks cur sz rs)
  case Nil
  then show ?case by auto
next
  case (Cons line rest)
  let ?n = "int (length (split_ws line))"
  show ?case
  proof (cases "sz + ?n > k \<and> cur \<noteq> []")
    case True
    with Cons.prems(1) have run:
      "lines_loop md k (Suc i) rest (chunks @ [line_chunk md cur (int i)], [line], ?n)
         = (chunks', cur', sz')"
      by (simp add: Let_def)
    have m: "map line_range (chunks @ [line_chunk md cur (int i)])
               = map Some (rs @ [(int i - int (length cur) + 1, int i)])"
      using Cons.prems(2) by (simp add: line_range_line_chunk)
    have t: "tiles 1 (int (Suc i) - int (length [line]))
               (rs @ [(int i - int (length cur) + 1, int i)])"
      using tiles_snoc [OF Cons.prems(3), of "int i - int (length cur) + 1" "int i"] True
      by (cases cur) auto
    from Cons.IH [OF run m t] show ?thesis by auto
  next
    case False
    with Cons.prems(1) have run:
      "lines_loop md k (Suc i) rest (chunks, cur @ [line], sz + ?n) = (chunks', cur', sz')"
      by (auto simp add: Let_def)
    have t: "tiles 1 (int (Suc i) - int (length (cur @ [line]))) rs"
      using Cons.prems(3) by simp
    from Cons.IH [OF run Cons.prems(2) t] Cons.prems(4) show ?thesis by auto
  qed
qed

lemma split_on_from_nonempty: "split_on_from sep cur s \<noteq> []"
  by (induction s arbitrary: cur) auto

lemma split_on_nonempty: "split_on sep s \<noteq> []"
  by (simp add: split_on_def split_on_from_nonempty)

lemma chunk_by_lines_tiles:
  "chunk_by_lines self txt md chunk_size ps \<noteq> []
   \<and> (\<exists>rs. map line_range (chunk_by_lines self txt md chunk_size ps) = map Some rs
          \<and> tiles 1 (int (length (split_on newline txt))) rs)"
proof -
  let ?k = "case chunk_size of None \<Rightarrow> max_chunk_size self | Some k \<Rightarrow> k"
  let ?ls = "split_on newline txt"
  let ?n = "int (length ?ls)"
  obtain chunks cur sz where run: "lines_loop md ?k 0 ?ls ([], [], 0) = (chunks, cur, sz)"
    by (metis prod_cases3)
  from lines_loop_tiles [OF run, of "[]"] split_on_nonempty [of newline "txt"] obtain rs where
    rs: "map line_range chunks = map Some rs"
        "tiles 1 (?n - int (length cur)) rs"
        "length cur \<le> length ?ls" "cur \<noteq> []"
    by auto
  have res: "chunk_by_lines self txt md chunk_size ps = chunks @ [line_chunk md cur ?n]"
    using run rs(4) by (simp add: chunk_by_lines_def Let_def)
  have "tiles 1 ?n (rs @ [(?n - int (length cur) + 1, ?n)])"
    using tiles_snoc [OF rs(2), of "?n - int (length cur) + 1" ?n] rs(4)
    by (cases cur) auto
  then show ?thesis
    unfolding res using rs(1)
    by (intro conjI exI [of _ "rs @ [(?n - int (length cur) + 1, ?n)]"])
       (simp_all add: line_range_line_chunk)
qed

lemma chunk_by_lines_nonempty: "chunk_by_lines self txt md chunk_size ps \<noteq> []"
  using chunk_by_lines_tiles [of self "txt" md chunk_size ps] by blast

text \<open>
  C2. For every input text (the empty one included) the line-based fallback returns
  at least one chunk, every chunk records an integer \<open>start_line\<close> and \<open>end_line\<close>,
  and these ranges, in the order of the chunks, tile the line numbers \<open>1..N\<close> of the
  input: the first starts at line 1, each next one starts right after the previous
  one ends, none is empty, and the last ends at line \<open>N\<close>. This holds for every
  \<open>chunk_size\<close>.
\<close>

theorem chunk_by_lines_partitions_lines:
  "chunk_by_lines self txt md chunk_size ps \<noteq> []
   \<and> (\<exists>rs. map line_range (chunk_by_lines self txt md chunk_size ps) = map Some rs
          \<and> tiles 1 (int (length (split_on newline txt))) rs)"
  by (rule chunk_by_lines_tiles)

section \<open>Properties of \<open>_chunk_markdown\<close>\<close>

lemma py_slice_nat:
  "a \<le> b \<Longrightarrow> b \<le> length xs \<Longrightarrow> py_slice xs (int a) (int b) = take (b - a) (drop a xs)"
  by (simp add: py_slice_def Let_def min_def nat_diff_distrib')

lemma indices_where_bounds:
  "x \<in> set (indices_where hit i ls) \<Longrightarrow> i \<le> x \<and> x < i + length ls"
  by (induction ls arbitrary: i) (fastforce split: if_splits)+

lemma indices_where_increasing: "sorted_wrt (<) (indices_where hit i ls)"
proof (induction ls arbitrary: i)
  case Nil
  then show ?case by simp
next
  case (Cons l ls)
  have "\<forall>x\<in>set (indices_where hit (Suc i) ls). i < x"
    by (meson Suc_le_lessD indices_where_bounds)
  with Cons show ?case by simp
qed

lemma indices_where_first:
  "indices_where hit i ls = h # hs \<Longrightarrow>
   i \<le> h \<and> h < i + length ls \<and> hit (ls ! (h - i)) \<and> (\<forall>j < h - i. \<not> hit (ls ! j))"
proof (induction ls arbitrary: i)
  case Nil
  then show ?case by simp
next
  case (Cons l ls)
  show ?case
  proof (cases "hit l")
    case True
    with Cons.prems show ?thesis by simp
  next
    case False
    with Cons.prems have "indices_where hit (Suc i) ls = h # hs" by simp
    from Cons.IH [OF this] have ih: "Suc i \<le> h" "h < Suc i + length ls"
      "hit (ls ! (h - Suc i))" "\<forall>j < h - Suc i. \<not> hit (ls ! j)" by auto
    have "\<not> hit ((l # ls) ! j)" if "j < h - i" for j
      using that False ih(4) by (cases j) auto
    moreover have "(l # ls) ! (h - i) = ls ! (h - Suc i)"
      using ih(1) by (simp add: nth_Cons')
    ultimately show ?thesis using ih by auto
  qed
qed

lemma markdown_sections_tiles:
  "sorted_wrt (<) (b # bs) \<Longrightarrow> \<forall>x\<in>set (b # bs). x < length lines \<Longrightarrow>
   \<exists>cs rs groups. markdown_sections md lines (b # bs) = Inr cs
      \<and> map line_range cs = map Some rs
      \<and> tiles (int b + 1) (int (length lines)) rs
      \<and> map content cs = map (join [newline]) groups
      \<and> concat groups = drop b lines"
proof (induction bs arbitrary: b)
  case Nil
  then have b: "b < length lines" by simp
  then have sl: "py_slice lines (int b) (int (length lines)) = drop b lines"
    using py_slice_nat [of b "length lines" lines] by simp
  from b obtain l ls where dl: "drop b lines = l # ls"
    by (cases "drop b lines") auto
  let ?c = "\<lparr>content = join [newline] (drop b lines),
              metadata = md(''start_line'' \<mapsto> PInt (int b + 1),
                            ''end_line'' \<mapsto> PInt (int (length lines)),
                            ''section_title'' \<mapsto> PStr (re_sub_start heading_marks_re l),
                            ''chunk_type'' \<mapsto> PStr ''markdown_section'')\<rparr>"
  have "markdown_sections md lines [b] = Inr [?c]"
    using sl dl by (simp add: Let_def)
  moreover have "line_range ?c = Some (int b + 1, int (length lines))"
    by (simp add: line_range_def)
  ultimately show ?case
    using b
    by (intro exI [of _ "[?c]"] exI [of _ "[(int b + 1, int (length lines))]"]
          exI [of _ "[drop b lines]"]) simp
next
  case (Cons b2 bs)
  from Cons.prems have lt: "b < b2" "b2 < length lines" by auto
  from Cons.prems have "sorted_wrt (<) (b2 # bs)" "\<forall>x\<in>set (b2 # bs). x < length lines"
    by auto
  from Cons.IH [OF this] obtain cs rs groups where ih:
    "markdown_sections md lines (b2 # bs) = Inr cs"
    "map line_range cs = map Some rs"
    "tiles (int b2 + 1) (int (length lines)) rs"
    "map content cs = map (join [newline]) groups"
    "concat groups = drop b2 lines"
    by blast
  have sl: "py_slice lines (int b) (int b2) = take (b2 - b) (drop b lines)"
    using py_slice_nat [of b b2 lines] lt by simp
  from lt obtain l ls where dl: "take (b2 - b) (drop b lines) = l # ls"
    by (cases "take (b2 - b) (drop b lines)") auto
  let ?c = "\<lparr>content = join [newline] (take (b2 - b) (drop b lines)),
              metadata = md(''start_line'' \<mapsto> PInt (int b + 1),
                            ''end_line'' \<mapsto> PInt (int b2),
                            ''section_title'' \<mapsto> PStr (re_sub_start heading_marks_re l),
                            ''chunk_type'' \<mapsto> PStr ''markdown_section'')\<rparr>"
  have run: "markdown_sections md lines (b # b2 # bs) = Inr (?c # cs)"
    using sl dl ih(1) by (simp add: Let_def del: markdown_sections.simps(2))
      (simp add: Let_def sl dl)
  have lr: "line_range ?c = Some (int b + 1, int b2)"
    by (simp add: line_range_def)
  have cat: "take (b2 - b) (drop b lines) @ drop b2 lines = drop b lines"
    using lt by (metis add_diff_inverse_nat append_take_drop_id drop_drop less_imp_le_nat not_less add.commute)
  show ?case
    using run lr ih(2-5) lt cat
    by (intro exI [of _ "?c # cs"] exI [of _ "(int b + 1, int b2) # rs"]
          exI [of _ "take (b2 - b) (drop b lines) # groups"]) simp
qed

lemma chunk_markdown_from_first_heading:
  assumes "indices_where is_heading 0 (split_on newline txt) = h # hs"
  shows "\<exists>cs rs groups. chunk_markdown self txt md = Inr cs
      \<and> map line_range cs = map Some rs
      \<and> tiles (int h + 1) (int (length (split_on newline txt))) rs
      \<and> map content cs = map (join [newline]) groups
      \<and> concat groups = drop h (split_on newline txt)"
proof -
  let ?lines = "split_on newline txt"
  have "sorted_wrt (<) (h # hs)"
    using indices_where_increasing [of is_heading 0 ?lines] assms by simp
  moreover have "\<forall>x\<in>set (h # hs). x < length ?lines"
    using indices_where_bounds [of _ is_heading 0 ?lines] assms by auto
  ultimately show ?thesis
    using markdown_sections_tiles [of h hs ?lines md] assms
    by (simp add: chunk_markdown_def Let_def)
qed

lemma indices_where_head:
  "k < length ls \<Longrightarrow> hit (ls ! k) \<Longrightarrow> \<forall>j<k. \<not> hit (ls ! j) \<Longrightarrow>
   \<exists>hs. indices_where hit i ls = (i + k) # hs"
proof (induction ls arbitrary: i k)
  case Nil
  then show ?case by simp
next
  case (Cons l ls)
  show ?case
  proof (cases k)
    case 0
    with Cons.prems show ?thesis by simp
  next
    case (Suc k')
    with Cons.prems have nl: "\<not> hit l" by auto
    from Cons.prems Suc have "k' < length ls" "hit (ls ! k')" "\<forall>j<k'. \<not> hit (ls ! j)"
      by auto
    from Cons.IH [OF this, of "Suc i"] obtain hs where
      "indices_where hit (Suc i) ls = (Suc i + k') # hs" by blast
    with nl Suc show ?thesis by simp
  qed
qed

text \<open>
  C10. When line \<open>h\<close> (counted from 0) is the first heading line of a markdown text,
  \<open>_chunk_markdown\<close> returns chunks whose line ranges tile the lines \<open>h + 1 .. N\<close>
  and whose contents are made of exactly the lines from the first heading on, in
  order. The lines before the first heading are in no range and in no content: a
  preamble is dropped.
\<close>

theorem chunk_markdown_drops_preamble:
  assumes "h < length (split_on newline txt)"
    and "is_heading (split_on newline txt ! h)"
    and "\<forall>j<h. \<not> is_heading (split_on newline txt ! j)"
  shows "\<exists>cs rs groups. chunk_markdown self txt md = Inr cs
      \<and> map line_range cs = map Some rs
      \<and> tiles (int h + 1) (int (length (split_on newline txt))) rs
      \<and> map content cs = map (join [newline]) groups
      \<and> concat groups = drop h (split_on newline txt)"
proof -
  from indices_where_head [OF assms, of 0] obtain hs where
    "indices_where is_heading 0 (split_on newline txt) = h # hs" by auto
  then show ?thesis by (rule chunk_markdown_from_first_heading)
qed

theorem chunk_markdown_drops_preamble_witness:
  "\<exists>cs rs groups.
      chunk_markdown init_chunking_service ''intro\<newline># A\<newline>body'' Map.empty = Inr cs
      \<and> map line_range cs = map Some rs
      \<and> tiles 2 3 rs
      \<and> map content cs = map (join [newline]) groups
      \<and> concat groups = [''# A'', ''body'']"
  using chunk_markdown_drops_preamble
          [of 1 "''intro\<newline># A\<newline>body''" init_chunking_service Map.empty]
  by (simp add: split_on_def is_heading_def re_match_def heading_re_def is_space_def)

text \<open>
  C5. On the four-line example the markdown strategy returns exactly two chunks, with
  section titles \<open>A\<close> and \<open>B\<close>, the first over lines 1 to 2 and the second over
  lines 3 to 4.
\<close>

theorem chunk_markdown_example:
  "map_sum id (map (\<lambda>c. (content c, metadata c ''section_title'', line_range c)))
     (chunk_markdown self ''# A\<newline>text1\<newline>## B\<newline>text2'' md)
   = Inr [(''# A\<newline>text1'', Some (PStr ''A''), Some (1, 2)),
          (''## B\<newline>text2'', Some (PStr ''B''), Some (3, 4))]"
  by (simp add: chunk_markdown_def split_on_def is_heading_def re_match_def heading_re_def
      heading_marks_re_def re_sub_start_def is_space_def py_slice_def line_range_def Let_def)

section \<open>Properties of the query router\<close>

lemma contains_sublist: "contains p s = sublist p s"
  by (induction s) (auto simp: sublist_Cons_right)

lemma dropWhile_keeps_sublist:
  assumes "p \<noteq> []" "\<not> P (hd p)" "sublist p s"
  shows "sublist p (dropWhile P s)"
proof -
  from assms(3) obtain a b where s: "s = a @ p @ b" by (auto simp: sublist_def)
  from assms(1,2) have dp: "dropWhile P (p @ b) = p @ b" by (cases p) auto
  show ?thesis
  proof (cases "\<forall>x\<in>set a. P x")
    case True
    then have "dropWhile P (a @ (p @ b)) = dropWhile P (p @ b)"
      by (intro dropWhile_append2) simp
    then show ?thesis using s dp by simp
  next
    case False
    then obtain x where "x \<in> set a" "\<not> P x" by blast
    then have "dropWhile P (a @ (p @ b)) = dropWhile P a @ (p @ b)"
      by (rule dropWhile_append1)
    then show ?thesis using s by simp
  qed
qed

lemma sublist_rev_left: "sublist (rev p) s \<longleftrightarrow> sublist p (rev s)"
  using sublist_rev [of p "rev s"] by simp

lemma sublist_strip:
  assumes "p \<noteq> []" "\<not> is_space (hd p)" "\<not> is_space (last p)"
  shows "sublist p (strip s) \<longleftrightarrow> sublist p s"
proof
  assume "sublist p (strip s)"
  then have "sublist (rev p) (dropWhile is_space (rev (dropWhile is_space s)))"
    by (simp add: strip_def sublist_rev_left)
  then have "sublist (rev p) (rev (dropWhile is_space s))"
    by (meson sublist_order.order.trans suffix_dropWhile suffix_imp_sublist)
  then have "sublist p (dropWhile is_space s)" by (simp add: sublist_rev)
  then show "sublist p s"
    by (meson sublist_order.order.trans suffix_dropWhile suffix_imp_sublist)
next
  assume "sublist p s"
  then have "sublist p (dropWhile is_space s)"
    using assms by (intro dropWhile_keeps_sublist)
  then have "sublist (rev p) (rev (dropWhile is_space s))" by (simp add: sublist_rev)
  moreover have "rev p \<noteq> []" "\<not> is_space (hd (rev p))"
    using assms by (simp_all add: hd_rev)
  ultimately have "sublist (rev p) (dropWhile is_space (rev (dropWhile is_space s)))"
    by (intro dropWhile_keeps_sublist)
  then show "sublist p (strip s)" by (simp add: strip_def sublist_rev_left)
qed

lemma simple_patterns_edges:
  "p \<in> set simple_patterns \<Longrightarrow> p \<noteq> [] \<and> \<not> is_space (hd p) \<and> \<not> is_space (last p)"
  by (auto simp: simple_patterns_def is_space_def)

lemma should_use_rag_casual:
  assumes "length (split_ws m) \<le> 3" "p \<in> set simple_patterns" "sublist p (strip (lower m))"
  shows "\<not> should_use_rag m"
  using assms by (auto simp: should_use_rag_def Let_def list_ex_iff contains_sublist)

lemma should_use_rag_keyword:
  assumes "\<not> (length (split_ws m) \<le> 3 \<and> (\<exists>p\<in>set simple_patterns. sublist p (strip (lower m))))"
    "k \<in> set project_keywords" "sublist k (strip (lower m))"
  shows "should_use_rag m"
  using assms by (auto simp: should_use_rag_def Let_def list_ex_iff contains_sublist)

text \<open>
  C7. The router decides in order: a message of at most three words whose trimmed
  lower-case text contains an entry of the casual list is answered \<open>False\<close>; any
  other message that contains a project keyword is answered \<open>True\<close>. The message
  \<open>hi\<close> is answered \<open>False\<close> and \<open>how do I fix this bug in my API\<close> is answered
  \<open>True\<close>.
\<close>

theorem should_use_rag_order:
  "((\<exists>p\<in>set simple_patterns. sublist p (strip (lower m))) \<and> length (split_ws m) \<le> 3
      \<longrightarrow> \<not> should_use_rag m)
   \<and> (\<not> ((\<exists>p\<in>set simple_patterns. sublist p (strip (lower m))) \<and> length (split_ws m) \<le> 3)
        \<and> (\<exists>k\<in>set project_keywords. sublist k (strip (lower m)))
      \<longrightarrow> should_use_rag m)
   \<and> \<not> should_use_rag ''hi''
   \<and> should_use_rag ''how do I fix this bug in my API''"
proof (intro conjI impI)
  assume "(\<exists>p\<in>set simple_patterns. sublist p (strip (lower m))) \<and> length (split_ws m) \<le> 3"
  then show "\<not> should_use_rag m" using should_use_rag_casual by blast
next
  assume "\<not> ((\<exists>p\<in>set simple_patterns. sublist p (strip (lower m))) \<and> length (split_ws m) \<le> 3)
        \<and> (\<exists>k\<in>set project_keywords. sublist k (strip (lower m)))"
  then show "should_use_rag m" using should_use_rag_keyword [of m] by blast
next
  show "\<not> should_use_rag ''hi''" by code_simp
next
  show "should_use_rag ''how do I fix this bug in my API''" by code_simp
qed

theorem should_use_rag_order_witness:
  "(length (split_ws ''thanks a lot'') = 3 \<and> \<not> should_use_rag ''thanks a lot'')
   \<and> (length (split_ws ''please debug the failing endpoint'') = 5
        \<and> should_use_rag ''please debug the failing endpoint'')"
proof -
  let ?a = "''thanks a lot''" and ?b = "''please debug the failing endpoint''"
  have la: "length (split_ws ?a) = 3" by code_simp
  have lb: "length (split_ws ?b) = 5" by code_simp
  have pa: "''thanks'' \<in> set simple_patterns" by (simp add: simple_patterns_def)
  have sa: "sublist ''thanks'' (strip (lower ?a))"
    unfolding contains_sublist [symmetric] by code_simp
  have kb: "''debug'' \<in> set project_keywords" by (simp add: project_keywords_def)
  have sb: "sublist ''debug'' (strip (lower ?b))"
    unfolding contains_sublist [symmetric] by code_simp
  from should_use_rag_order [of ?a] pa sa la have "\<not> should_use_rag ?a" by force
  moreover from should_use_rag_order [of ?b] kb sb lb have "should_use_rag ?b" by force
  ultimately show ?thesis using la lb by blast
qed

text \<open>
  C9. A message of at most three words whose lower-case text contains an entry of the
  casual list anywhere, also inside another word, is answered \<open>False\<close>, whatever
  project keywords it contains. So \<open>fix this\<close> is answered \<open>False\<close>: it contains
  \<open>hi\<close> inside \<open>this\<close>, although \<open>fix\<close> is a project keyword.
\<close>

theorem should_use_rag_casual_substring:
  assumes "length (split_ws m) \<le> 3"
    and "p \<in> set simple_patterns"
    and "sublist p (lower m)"
  shows "\<not> should_use_rag m"
proof -
  from assms(2) have "p \<noteq> []" "\<not> is_space (hd p)" "\<not> is_space (last p)"
    using simple_patterns_edges by blast+
  with assms(3) have "sublist p (strip (lower m))" by (simp add: sublist_strip)
  with assms(1,2) show ?thesis by (rule should_use_rag_casual)
qed

theorem should_use_rag_casual_substring_witness:
  "length (split_ws ''fix this'') = 2
   \<and> sublist ''hi'' (lower ''fix this'')
   \<and> ''fix'' \<in> set project_keywords
   \<and> sublist ''fix'' (lower ''fix this'')
   \<and> \<not> should_use_rag ''fix this''"
proof -
  let ?m = "''fix this''"
  have l: "length (split_ws ?m) = 2" by code_simp
  have p: "''hi'' \<in> set simple_patterns" by (simp add: simple_patterns_def)
  have s: "sublist ''hi'' (lower ?m)" unfolding contains_sublist [symmetric] by code_simp
  have k: "''fix'' \<in> set project_keywords" by (simp add: project_keywords_def)
  have f: "sublist ''fix'' (lower ?m)" unfolding contains_sublist [symmetric] by code_simp
  from l have "length (split_ws ?m) \<le> 3" by simp
  from should_use_rag_casual_substring [OF this p s] l s k f show ?thesis by blast
qed

section \<open>Properties of \<open>chunk_sql\<close>\<close>

lemma le_length_takeWhile:
  "n \<le> length (takeWhile P s) \<longleftrightarrow> n \<le> length s \<and> list_all P (take n s)"
proof (induction s arbitrary: n)
  case Nil
  then show ?case by simp
next
  case (Cons c s)
  then show ?case by (cases n) auto
qed

lemma match_items_Plain:
  "match_items (Plain a # p) s \<noteq> [] \<longleftrightarrow> (\<exists>n\<in>set (atom_lengths a s). match_items p (drop n s) \<noteq> [])"
  by auto

lemma atom_lengths_Rep:
  "n \<in> set (atom_lengths (Rep cls lo None g) s) \<longleftrightarrow> lo \<le> n \<and> n \<le> length (takeWhile cls s)"
  by (auto simp: Let_def)
lemma match_items_run:
  "match_items (Plain (Rep cls lo None g) # p) s \<noteq> [] \<longleftrightarrow>
     (\<exists>ws rest. s = ws @ rest \<and> lo \<le> length ws \<and> list_all cls ws \<and> match_items p rest \<noteq> [])"
  (is "?l \<longleftrightarrow> ?r")
proof
  assume ?l
  then obtain n where m: "n \<in> set (atom_lengths (Rep cls lo None g) s)"
      and n3: "match_items p (drop n s) \<noteq> []"
    using match_items_Plain [of "Rep cls lo None g" p s] by blast
  from m have n: "lo \<le> n" "n \<le> length (takeWhile cls s)"
    by (simp_all only: atom_lengths_Rep)
  then have "s = take n s @ drop n s" "lo \<le> length (take n s)" "list_all cls (take n s)"
    by (simp_all add: le_length_takeWhile)
  with n3 show ?r by blast
next
  assume ?r
  then obtain ws rest where r: "s = ws @ rest" "lo \<le> length ws" "list_all cls ws"
    "match_items p rest \<noteq> []" by blast
  then have "length ws \<le> length (takeWhile cls s)" "drop (length ws) s = rest"
    by (simp_all add: le_length_takeWhile)
  with r(2) have "length ws \<in> set (atom_lengths (Rep cls lo None g) s)"
    by (simp only: atom_lengths_Rep)
  moreover have "match_items p (drop (length ws) s) \<noteq> []"
    using r(4) \<open>drop (length ws) s = rest\<close> by simp
  ultimately show ?l
    using match_items_Plain [of "Rep cls lo None g" p s] by blast
qed

lemma lower_length: "lower u = lower k \<Longrightarrow> length u = length k"
  unfolding lower_def by (rule map_eq_imp_length_eq)

lemma prefix_lower:
  "prefix (lower k) (lower s) \<longleftrightarrow> (\<exists>u rest. s = u @ rest \<and> lower u = lower k)"
  (is "?l \<longleftrightarrow> ?r")
proof
  assume ?l
  then obtain z where z: "lower s = lower k @ z" by (auto simp: prefix_def)
  have "lower (take (length k) s) = take (length k) (lower s)"
    by (simp add: lower_def take_map)
  also have "\<dots> = lower k" using z by (simp add: lower_def)
  finally have "s = take (length k) s @ drop (length k) s \<and> lower (take (length k) s) = lower k"
    by simp
  then show ?r by blast
next
  assume ?r
  then show ?l by (auto simp: lower_def)
qed

lemma match_items_LitI:
  "match_items (Plain (LitI k) # p) s \<noteq> [] \<longleftrightarrow>
     (\<exists>u rest. s = u @ rest \<and> lower u = lower k \<and> match_items p rest \<noteq> [])"
  (is "?l \<longleftrightarrow> ?r")
proof
  assume l: ?l
  have pre: "prefix (lower k) (lower s)"
  proof (rule ccontr)
    assume "\<not> prefix (lower k) (lower s)"
    then have "match_items (Plain (LitI k) # p) s = []" by simp
    with l show False by simp
  qed
  with l have m: "match_items p (drop (length k) s) \<noteq> []" by simp
  from pre obtain u rest where u: "s = u @ rest" "lower u = lower k"
    unfolding prefix_lower by blast
  from u(2) have "length u = length k" by (rule lower_length)
  with u(1) m have "match_items p rest \<noteq> []" by simp
  with u show ?r by blast
next
  assume ?r
  then obtain u rest where u: "s = u @ rest" "lower u = lower k" "match_items p rest \<noteq> []"
    by blast
  from u(2) have len: "length u = length k" by (rule lower_length)
  have "prefix (lower k) (lower s)" unfolding prefix_lower using u(1,2) by blast
  moreover have "drop (length k) s = rest" using u(1) len by simp
  ultimately show ?l using u(3) by simp
qed

lemma re_match_iff: "re_match p s \<noteq> None \<longleftrightarrow> match_items p s \<noteq> []"
  by (cases "match_items p s") (simp_all add: re_match_def)

lemma match_items_Nil: "match_items [] s \<noteq> []"
  by simp

lemma re_match_keyword:
  "re_match [Plain spaces0, Plain (LitI k)] st \<noteq> None \<longleftrightarrow> leading_keyword k st"
  unfolding re_match_iff match_items_run match_items_LitI leading_keyword_def
  by (simp only: match_items_Nil simp_thms le0 ex_simps) blast

lemma re_match_keywords2:
  "re_match [Plain spaces0, Plain (LitI k1), Plain spaces1, Plain (LitI k2)] st \<noteq> None
     \<longleftrightarrow> leading_keywords2 k1 k2 st"
proof -
  have one: "1 \<le> length gap \<longleftrightarrow> gap \<noteq> []" for gap :: string
    by (cases gap) simp_all
  show ?thesis
    unfolding re_match_iff match_items_run match_items_LitI leading_keywords2_def one
    by (simp only: match_items_Nil simp_thms le0 ex_simps) blast
qed

lemma statement_type_keyword_class: "statement_type st = keyword_class st"
  by (simp only: statement_type_def keyword_class_def create_table_re_def create_index_re_def
      insert_re_def select_re_def re_match_keyword re_match_keywords2)

lemma sql_loop_enumerate:
  "map (\<lambda>c. (content c, metadata c ''statement_type'', metadata c ''statement_index''))
       (sql_loop md i pieces)
   = map (\<lambda>(j, s). (strip s, Some (PStr (statement_type (strip s))), Some (PInt (int j + 1))))
       (filter (\<lambda>(j, s). strip s \<noteq> []) (enumerate i pieces))"
  by (induction pieces arbitrary: i) (simp_all add: Let_def)

lemma sql_loop_index_from:
  "\<forall>s\<in>set pieces. strip s \<noteq> [] \<Longrightarrow>
   map (\<lambda>c. metadata c ''statement_index'') (sql_loop md i pieces)
     = map (\<lambda>n. Some (PInt (int i + int n + 1))) [0..<length pieces]"
proof (induction pieces arbitrary: i)
  case Nil
  then show ?case by simp
next
  case (Cons s pieces)
  have ih: "map (\<lambda>c. metadata c ''statement_index'') (sql_loop md (Suc i) pieces)
     = map (\<lambda>n. Some (PInt (int (Suc i) + int n + 1))) [0..<length pieces]"
    using Cons.IH [of "Suc i"] Cons.prems by simp
  have st: "strip s \<noteq> []" using Cons.prems by simp
  show ?case
    unfolding length_Cons map_upt_Suc sql_loop.simps Let_def using st ih by simp
qed
text \<open>
  C4 (amended). \<open>chunk_sql\<close> splits the text on the statement separator, trims every
  piece and drops the empty ones; each remaining statement is classified by its
  leading keyword and tagged with \<open>statement_index\<close> one more than the position of
  its piece among all the pieces of the split, dropped ones included. When no piece
  is empty after trimming, the chunks are numbered 1, 2, 3, ... in order. The
  two-statement example yields \<open>CREATE_TABLE\<close> and \<open>SELECT\<close> with indices 1 and 2.
\<close>

theorem chunk_sql_statements:
  "map (\<lambda>c. (content c, metadata c ''statement_type'', metadata c ''statement_index''))
       (chunk_sql self txt md)
     = map (\<lambda>(j, s). (strip s, Some (PStr (keyword_class (strip s))), Some (PInt (int j + 1))))
         (filter (\<lambda>(j, s). strip s \<noteq> []) (enumerate 0 (re_split statement_sep txt)))
   \<and> ((\<forall>s\<in>set (re_split statement_sep txt). strip s \<noteq> []) \<longrightarrow>
        map (\<lambda>c. metadata c ''statement_index'') (chunk_sql self txt md)
          = map (\<lambda>n. Some (PInt (int n + 1))) [0..<length (re_split statement_sep txt)])
   \<and> map (\<lambda>c. (content c, metadata c ''statement_type'', metadata c ''statement_index''))
         (chunk_sql self ''CREATE TABLE t (id INT);\<newline>SELECT * FROM t;'' md)
       = [(''CREATE TABLE t (id INT)'', Some (PStr ''CREATE_TABLE''), Some (PInt 1)),
          (''SELECT * FROM t;'', Some (PStr ''SELECT''), Some (PInt 2))]"
proof (intro conjI impI)
  show "map (\<lambda>c. (content c, metadata c ''statement_type'', metadata c ''statement_index''))
       (chunk_sql self txt md)
     = map (\<lambda>(j, s). (strip s, Some (PStr (keyword_class (strip s))), Some (PInt (int j + 1))))
         (filter (\<lambda>(j, s). strip s \<noteq> []) (enumerate 0 (re_split statement_sep txt)))"
    unfolding chunk_sql_def sql_loop_enumerate statement_type_keyword_class ..
next
  assume "\<forall>s\<in>set (re_split statement_sep txt). strip s \<noteq> []"
  from sql_loop_index_from [OF this, of md 0]
  show "map (\<lambda>c. metadata c ''statement_index'') (chunk_sql self txt md)
          = map (\<lambda>n. Some (PInt (int n + 1))) [0..<length (re_split statement_sep txt)]"
    by (simp add: chunk_sql_def)
next
  show "map (\<lambda>c. (content c, metadata c ''statement_type'', metadata c ''statement_index''))
         (chunk_sql self ''CREATE TABLE t (id INT);\<newline>SELECT * FROM t;'' md)
       = [(''CREATE TABLE t (id INT)'', Some (PStr ''CREATE_TABLE''), Some (PInt 1)),
          (''SELECT * FROM t;'', Some (PStr ''SELECT''), Some (PInt 2))]"
    by code_simp
qed

theorem chunk_sql_statements_witness:
  "re_split statement_sep ''INSERT INTO t VALUES (1);\<newline>select 1''
     = [''INSERT INTO t VALUES (1)'', ''select 1'']
   \<and> map (\<lambda>c. metadata c ''statement_index'')
         (chunk_sql init_chunking_service ''INSERT INTO t VALUES (1);\<newline>select 1'' Map.empty)
       = [Some (PInt 1), Some (PInt 2)]"
proof -
  let ?t = "''INSERT INTO t VALUES (1);\<newline>select 1''"
  have sp: "re_split statement_sep ?t = [''INSERT INTO t VALUES (1)'', ''select 1'']"
    by code_simp
  have ne: "\<forall>s\<in>set (re_split statement_sep ?t). strip s \<noteq> []"
    unfolding sp by code_simp
  from chunk_sql_statements [of init_chunking_service ?t Map.empty] ne
  have "map (\<lambda>c. metadata c ''statement_index'') (chunk_sql init_chunking_service ?t Map.empty)
          = map (\<lambda>n. Some (PInt (int n + 1))) [0..<length (re_split statement_sep ?t)]"
    by blast
  also have "\<dots> = [Some (PInt 1), Some (PInt 2)]"
    unfolding sp by (simp add: upt_rec)
  finally show ?thesis using sp by simp
qed

text \<open>
  An empty statement between two separators is dropped but still counted: the second
  chunk of this input carries \<open>statement_index\<close> 3.
\<close>

theorem chunk_sql_index_counterexample:
  "map (\<lambda>c. (content c, metadata c ''statement_index''))
     (chunk_sql init_chunking_service ''SELECT 1;\<newline>;\<newline>SELECT 2'' Map.empty)
   = [(''SELECT 1'', Some (PInt 1)), (''SELECT 2'', Some (PInt 3))]"
  by code_simp

section \<open>Properties of the CSV path\<close>

lemma py_slice_pos:
  "0 \<le> a \<Longrightarrow> a \<le> b \<Longrightarrow> py_slice xs a b = take (nat (b - a)) (drop (nat a) xs)"
proof -
  assume a: "0 \<le> a" "a \<le> b"
  let ?n = "int (length xs)"
  consider "b \<le> ?n" | "a \<le> ?n" "?n < b" | "?n < a" by linarith
  then show ?thesis
  proof cases
    case 1
    with a show ?thesis by (simp add: py_slice_def Let_def min_def)
  next
    case 2
    with a have "py_slice xs a b = drop (nat a) xs"
      by (simp add: py_slice_def Let_def min_def nat_diff_distrib)
    moreover have "length (drop (nat a) xs) \<le> nat (b - a)" using 2 a by simp
    ultimately show ?thesis by simp
  next
    case 3
    with a show ?thesis by (simp add: py_slice_def Let_def min_def)
  qed
qed

lemma csv_small:
  assumes "length txt \<le> 10000000" "split_on newline (strip txt) = header # rows"
    "length rows \<le> 999"
  shows "process_csv_content txt md =
    (let filename = dict_get md ''file_name'' (PStr ''unknown.csv'');
         header_chunk =
           \<lparr>content = ''CSV File: '' @ py_str filename @ [newline]
                @ ''Columns: '' @ header @ [newline]
                @ ''Total Rows: '' @ str_int (int (length rows)),
            metadata = md(''chunk_type'' \<mapsto> PStr ''csv_header'',
                          ''row_count'' \<mapsto> PInt (int (length rows)),
                          ''columns_str'' \<mapsto> PStr header,
                          ''column_count'' \<mapsto> PInt (column_count header))\<rparr>
     in if rows = [] then [header_chunk]
        else [header_chunk,
              \<lparr>content = ''Sample data from '' @ py_str filename @ '':'' @ [newline]
                 @ header @ [newline] @ join [newline] (take 10 rows),
               metadata = md(''chunk_type'' \<mapsto> PStr ''csv_sample'',
                             ''sample_size'' \<mapsto> PInt (int (min 10 (length rows))))\<rparr>])"
proof -
  have sl: "py_slice (header # rows) 1 11 = take 10 rows"
    using py_slice_pos [of 1 11 "header # rows"] by simp
  have ne: "rows \<noteq> [] \<Longrightarrow> take 10 rows \<noteq> []" by (cases rows) auto
  have len: "int (length (take 10 rows)) = int (min 10 (length rows))" by simp
  show ?thesis
    using assms ne
    by (simp only: process_csv_content_def csv_try_def Let_def sl len)
       (simp add: split_on_nonempty len del: length_take)
qed

lemma csv_large:
  assumes "length txt \<le> 10000000" "split_on newline (strip txt) = header # rows"
    "1000 \<le> length rows" "py_format_comma (dict_get md ''file_size'' (PInt 0)) = Inr fs"
  shows "process_csv_content txt md =
    (let filename = dict_get md ''file_name'' (PStr ''unknown.csv'')
     in [\<lparr>content = ''Large CSV File: '' @ py_str filename @ [newline]
                @ ''Columns: '' @ header @ [newline]
                @ ''Total Rows: '' @ str_int (int (length rows)),
            metadata = md(''chunk_type'' \<mapsto> PStr ''csv_header_large'',
                          ''row_count'' \<mapsto> PInt (int (length rows)),
                          ''columns_str'' \<mapsto> PStr header,
                          ''column_count'' \<mapsto> PInt (column_count header))\<rparr>,
         \<lparr>content = ''Sample from '' @ py_str filename @ '' (first 20 rows):'' @ [newline]
                 @ header @ [newline] @ join [newline] (take 20 rows),
               metadata = md(''chunk_type'' \<mapsto> PStr ''csv_sample_large'',
                             ''sample_size'' \<mapsto> PInt 20)\<rparr>,
         \<lparr>content = ''Statistics for '' @ py_str filename @ '':'' @ [newline]
                 @ ''- Total records: '' @ format_comma (int (length rows)) @ [newline]
                 @ ''- Columns: '' @ str_int (column_count header) @ [newline]
                 @ ''- File size: '' @ fs @ '' bytes'' @ [newline]
                 @ ''- Data type: Large dataset suitable for analysis'' @ [newline],
          metadata = md(''chunk_type'' \<mapsto> PStr ''csv_statistics'',
                        ''is_large_dataset'' \<mapsto> PBool True)\<rparr>])"
proof -
  have sl: "py_slice (header # rows) 1 21 = take 20 rows"
    using py_slice_pos [of 1 21 "header # rows"] by simp
  have ne: "take 20 rows \<noteq> []" using assms(3) by (cases rows) auto
  have len: "length (take 20 rows) = 20" using assms(3) by simp
  show ?thesis
    using assms ne len
    by (simp add: process_csv_content_def csv_try_def Let_def sl del: length_take)
qed

lemma split_on_from_append:
  "sep \<notin> set a \<Longrightarrow> split_on_from sep cur (a @ b) = split_on_from sep (rev a @ cur) b"
  by (induction a arbitrary: cur) auto

lemma split_on_from_line:
  "sep \<notin> set l \<Longrightarrow>
   split_on_from sep [] (l @ sep # t) = l # split_on_from sep [] t"
  using split_on_from_append [of sep l "[]" "sep # t"] by simp

lemma split_on_join:
  "ls \<noteq> [] \<Longrightarrow> \<forall>l\<in>set ls. sep \<notin> set l \<Longrightarrow> split_on sep (join [sep] ls) = ls"
proof (induction "[sep]" ls rule: join.induct)
  case 1
  then show ?case by simp
next
  case (2 x)
  then show ?case
    using split_on_from_append [of sep x "[]" "[]"] by (simp add: split_on_def)
next
  case (3 x y ys)
  then have "split_on_from sep [] (join [sep] (y # ys)) = y # ys"
    by (simp add: split_on_def)
  with 3 show ?case
    by (simp add: split_on_def split_on_from_line)
qed

lemma strip_id: "s \<noteq> [] \<Longrightarrow> \<not> is_space (hd s) \<Longrightarrow> \<not> is_space (last s) \<Longrightarrow> strip s = s"
proof -
  assume a: "s \<noteq> []" "\<not> is_space (hd s)" "\<not> is_space (last s)"
  then have "dropWhile is_space s = s" by (cases s) auto
  moreover have "dropWhile is_space (rev s) = rev s"
    using a by (cases "rev s") (auto simp: last_rev [symmetric] hd_rev)
  ultimately show ?thesis by (simp add: strip_def)
qed

lemma hd_join: "x \<noteq> [] \<Longrightarrow> hd (join sep (x # xs)) = hd x"
  by (cases xs) auto

lemma join_nonempty: "x \<noteq> [] \<Longrightarrow> join sep (x # xs) \<noteq> []"
  by (cases xs) auto

lemma last_join_replicate: "x \<noteq> [] \<Longrightarrow> last (join sep (replicate (Suc n) x)) = last x"
  by (induction n) (auto simp: join_nonempty)

lemma length_join_replicate:
  "length (join sep (replicate (Suc n) x)) = n * (length sep + length x) + length x"
  by (induction n) auto

text \<open>A header line and \<open>n\<close> data rows, each the one-column line \<open>r\<close>.\<close>

lemma csv_of_rows:
  "n \<le> 10000 \<Longrightarrow>
   length (join [newline] (replicate (Suc n) ''r'')) \<le> 10000000
   \<and> split_on newline (strip (join [newline] (replicate (Suc n) ''r'')))
       = ''r'' # replicate n ''r''"
proof -
  assume n: "n \<le> 10000"
  let ?t = "join [newline] (replicate (Suc n) ''r'')"
  have ne: "?t \<noteq> []" by (cases n) auto
  have "hd ?t = CHR ''r''" using hd_join [of "''r''" "[newline]" "replicate n ''r''"] by simp
  moreover have "last ?t = CHR ''r''" using last_join_replicate [of "''r''" "[newline]" n] by simp
  ultimately have st: "strip ?t = ?t" using ne by (intro strip_id) (simp_all add: is_space_def)
  have "split_on newline ?t = replicate (Suc n) ''r''"
    by (rule split_on_join) auto
  moreover have "length ?t \<le> 10000000"
    using n length_join_replicate [of "[newline]" n "''r''"] by simp
  ultimately show ?thesis using st by simp
qed

lemma csv_large_unformattable:
  assumes "length txt \<le> 10000000" "split_on newline (strip txt) = header # rows"
    "1000 \<le> length rows" "py_format_comma (dict_get md ''file_size'' (PInt 0)) = Inl e"
  shows "map (\<lambda>c. metadata c ''chunk_type'') (process_csv_content txt md)
         = [Some (PStr ''csv_header_large''), Some (PStr ''csv_sample_large''),
            Some (PStr ''csv_fallback'')]"
proof -
  have sl: "py_slice (header # rows) 1 21 = take 20 rows"
    using py_slice_pos [of 1 21 "header # rows"] by simp
  have ne: "take 20 rows \<noteq> []" using assms(3) by (cases rows) auto
  show ?thesis
    using assms ne
    by (simp add: process_csv_content_def csv_try_def Let_def sl del: length_take)
qed

text \<open>
  C3 (amended). For CSV content of at most 10,000,000 characters, let the trimmed
  content have a header line and \<open>n\<close> further lines, the data rows. With no data
  row the CSV path emits the header-summary chunk alone, with \<open>row_count\<close> 0. With 1
  to 999 data rows it emits exactly two chunks: the header summary with
  \<open>row_count\<close> \<open>n\<close>, and a sample of the header and the first 10 data rows (all of
  them when there are fewer). With 1000 data rows or more, and a \<open>file_size\<close> that is
  absent or an integer, it emits exactly three chunks: the header summary with
  \<open>row_count\<close> \<open>n\<close>, a sample of the header and the first 20 data rows, and a
  statistics chunk. So 500 data rows give \<open>row_count\<close> 500 and a 10-row sample, and
  5000 data rows give three chunks.
\<close>

theorem process_csv_content_chunks:
  assumes "length txt \<le> 10000000"
    and "split_on newline (strip txt) = header # rows"
  shows
    "(rows = [] \<longrightarrow>
        (\<exists>h. process_csv_content txt md = [h]
           \<and> metadata h ''chunk_type'' = Some (PStr ''csv_header'')
           \<and> metadata h ''row_count'' = Some (PInt 0)))
     \<and> (1 \<le> length rows \<and> length rows \<le> 999 \<longrightarrow>
        (\<exists>h s. process_csv_content txt md = [h, s]
           \<and> metadata h ''chunk_type'' = Some (PStr ''csv_header'')
           \<and> metadata h ''row_count'' = Some (PInt (int (length rows)))
           \<and> metadata s ''chunk_type'' = Some (PStr ''csv_sample'')
           \<and> metadata s ''sample_size'' = Some (PInt (int (min 10 (length rows))))
           \<and> content s = ''Sample data from ''
                 @ py_str (dict_get md ''file_name'' (PStr ''unknown.csv'')) @ '':''
                 @ [newline] @ header @ [newline] @ join [newline] (take 10 rows)))
     \<and> (1000 \<le> length rows
          \<and> (md ''file_size'' = None \<or> (\<exists>k. md ''file_size'' = Some (PInt k))) \<longrightarrow>
        (\<exists>h s t. process_csv_content txt md = [h, s, t]
           \<and> metadata h ''chunk_type'' = Some (PStr ''csv_header_large'')
           \<and> metadata h ''row_count'' = Some (PInt (int (length rows)))
           \<and> metadata s ''chunk_type'' = Some (PStr ''csv_sample_large'')
           \<and> metadata s ''sample_size'' = Some (PInt 20)
           \<and> content s = ''Sample from ''
                 @ py_str (dict_get md ''file_name'' (PStr ''unknown.csv''))
                 @ '' (first 20 rows):''
                 @ [newline] @ header @ [newline] @ join [newline] (take 20 rows)
           \<and> metadata t ''chunk_type'' = Some (PStr ''csv_statistics'')))"
proof (intro conjI impI)
  assume "rows = []"
  then show "\<exists>h. process_csv_content txt md = [h]
           \<and> metadata h ''chunk_type'' = Some (PStr ''csv_header'')
           \<and> metadata h ''row_count'' = Some (PInt 0)"
    using csv_small [OF assms, of md] by (simp add: Let_def)
next
  assume "1 \<le> length rows \<and> length rows \<le> 999"
  then have "length rows \<le> 999" "rows \<noteq> []" by auto
  then show "\<exists>h s. process_csv_content txt md = [h, s]
           \<and> metadata h ''chunk_type'' = Some (PStr ''csv_header'')
           \<and> metadata h ''row_count'' = Some (PInt (int (length rows)))
           \<and> metadata s ''chunk_type'' = Some (PStr ''csv_sample'')
           \<and> metadata s ''sample_size'' = Some (PInt (int (min 10 (length rows))))
           \<and> content s = ''Sample data from ''
                 @ py_str (dict_get md ''file_name'' (PStr ''unknown.csv'')) @ '':''
                 @ [newline] @ header @ [newline] @ join [newline] (take 10 rows)"
    using csv_small [OF assms, of md] by (simp add: Let_def)
next
  assume a: "1000 \<le> length rows
          \<and> (md ''file_size'' = None \<or> (\<exists>k. md ''file_size'' = Some (PInt k)))"
  then obtain fs where "py_format_comma (dict_get md ''file_size'' (PInt 0)) = Inr fs"
    by (auto simp: py_format_comma_def dict_get_def)
  with a show "\<exists>h s t. process_csv_content txt md = [h, s, t]
           \<and> metadata h ''chunk_type'' = Some (PStr ''csv_header_large'')
           \<and> metadata h ''row_count'' = Some (PInt (int (length rows)))
           \<and> metadata s ''chunk_type'' = Some (PStr ''csv_sample_large'')
           \<and> metadata s ''sample_size'' = Some (PInt 20)
           \<and> content s = ''Sample from ''
                 @ py_str (dict_get md ''file_name'' (PStr ''unknown.csv''))
                 @ '' (first 20 rows):''
                 @ [newline] @ header @ [newline] @ join [newline] (take 20 rows)
           \<and> metadata t ''chunk_type'' = Some (PStr ''csv_statistics'')"
    using csv_large [OF assms, of md fs] by (simp add: Let_def)
qed

theorem process_csv_content_chunks_witness:
  "length (process_csv_content ''a,b'' Map.empty) = 1
   \<and> length (process_csv_content ''a,b\<newline>1,2\<newline>3,4'' Map.empty) = 2
   \<and> length (process_csv_content (join [newline] (replicate 5001 ''r'')) Map.empty) = 3"
proof -
  have s0: "split_on newline (strip ''a,b'') = ''a,b'' # []" by code_simp
  have s2: "split_on newline (strip ''a,b\<newline>1,2\<newline>3,4'') = ''a,b'' # [''1,2'', ''3,4'']"
    by code_simp
  have n: "(5001::nat) = Suc 5000" by simp
  have le: "(5000::nat) \<le> 10000" by simp
  have big: "length (join [newline] (replicate 5001 ''r'')) \<le> 10000000"
    "split_on newline (strip (join [newline] (replicate 5001 ''r'')))
       = ''r'' # replicate 5000 ''r''"
    unfolding n using csv_of_rows [OF le] by blast+
  have "length (process_csv_content ''a,b'' Map.empty) = 1"
    using process_csv_content_chunks [OF _ s0, of Map.empty] by auto
  moreover have "length (process_csv_content ''a,b\<newline>1,2\<newline>3,4'' Map.empty) = 2"
    using process_csv_content_chunks [OF _ s2, of Map.empty] by auto
  moreover have "length (process_csv_content (join [newline] (replicate 5001 ''r'')) Map.empty) = 3"
    using process_csv_content_chunks [OF big, of Map.empty] by auto
  ultimately show ?thesis by blast
qed

text \<open>
  A header with no data row gives one chunk, not two; a header with exactly 1000 data
  rows gives three chunks, not two; and with a \<open>file_size\<close> that is a string the
  third chunk of a long file is the fallback chunk, not the statistics.
\<close>

theorem process_csv_content_counterexample:
  "split_on newline (strip ''a,b'') = [''a,b'']
   \<and> length (process_csv_content ''a,b'' Map.empty) = 1
   \<and> split_on newline (strip (join [newline] (replicate 1001 ''r'')))
       = ''r'' # replicate 1000 ''r''
   \<and> length (process_csv_content (join [newline] (replicate 1001 ''r'')) Map.empty) = 3
   \<and> map (\<lambda>c. metadata c ''chunk_type'')
         (process_csv_content (join [newline] (replicate 1001 ''r''))
            [''file_size'' \<mapsto> PStr ''1 MB''])
       = [Some (PStr ''csv_header_large''), Some (PStr ''csv_sample_large''),
          Some (PStr ''csv_fallback'')]"
proof -
  have s0: "split_on newline (strip ''a,b'') = ''a,b'' # []" by code_simp
  have n: "(1001::nat) = Suc 1000" by simp
  have le: "(1000::nat) \<le> 10000" by simp
  have big: "length (join [newline] (replicate 1001 ''r'')) \<le> 10000000"
    "split_on newline (strip (join [newline] (replicate 1001 ''r'')))
       = ''r'' # replicate 1000 ''r''"
    unfolding n using csv_of_rows [OF le] by blast+
  have "length (process_csv_content ''a,b'' Map.empty) = 1"
    using csv_small [OF _ s0, of Map.empty] by (simp add: Let_def)
  moreover have "length (process_csv_content (join [newline] (replicate 1001 ''r'')) Map.empty) = 3"
    using csv_large [OF big, of Map.empty "format_comma 0"]
    by (simp add: Let_def py_format_comma_def dict_get_def)
  moreover have "map (\<lambda>c. metadata c ''chunk_type'')
         (process_csv_content (join [newline] (replicate 1001 ''r''))
            [''file_size'' \<mapsto> PStr ''1 MB''])
       = [Some (PStr ''csv_header_large''), Some (PStr ''csv_sample_large''),
          Some (PStr ''csv_fallback'')]"
    using csv_large_unformattable [OF big, of "[''file_size'' \<mapsto> PStr ''1 MB'']"]
    by (simp add: py_format_comma_def dict_get_def)
  ultimately show ?thesis using s0 big(2) by simp
qed

end
